theory Spec2Isabelle
  imports Main "HOL-Library.Word"
begin

unbundle bit_operations_syntax

section \<open>The DS2432 driver (w1-ds2432) as HOL functions\<close>

text \<open>
  Machine integers are words of the width the driver declares: \<open>u8\<close>, \<open>u16\<close> and
  \<open>u32\<close>; the C \<open>int\<close> is a 32-bit word; \<open>size_t\<close>, \<open>ssize_t\<close> and
  \<open>loff_t\<close> are 64-bit words (an LP64 kernel), read with \<open>unat\<close> or \<open>sint\<close>.
  Byte buffers are lists of \<open>u8\<close>. The \<open>dev_err\<close> log messages have no effect on
  results or on the bus and are left out.
\<close>

type_synonym u8 = "8 word"
type_synonym u16 = "16 word"
type_synonym u32 = "32 word"
type_synonym c_int = "32 word"
type_synonym size_t = "64 word"

subsection \<open>The MAC transform\<close>

text \<open>
  \<open>struct sha1\<close>: the five 32-bit words of the MAC. The C fields are called
  \<open>a\<close> to \<open>e\<close>; they carry the prefix \<open>sha1_\<close> here.
\<close>

record sha1 =
  sha1_a :: u32
  sha1_b :: u32
  sha1_c :: u32
  sha1_d :: u32
  sha1_e :: u32

text \<open>The macros \<open>f1\<close>, \<open>f2\<close>, \<open>f3\<close> and the constants \<open>K1\<close> to \<open>K4\<close>.\<close>

definition f1 :: "u32 \<Rightarrow> u32 \<Rightarrow> u32 \<Rightarrow> u32" where
  "f1 x y z = z XOR (x AND (y XOR z))"

definition f2 :: "u32 \<Rightarrow> u32 \<Rightarrow> u32 \<Rightarrow> u32" where
  "f2 x y z = x XOR y XOR z"

definition f3 :: "u32 \<Rightarrow> u32 \<Rightarrow> u32 \<Rightarrow> u32" where
  "f3 x y z = (x AND y) + (z AND (x XOR y))"

definition K1 :: u32 where "K1 = 0x5A827999"
definition K2 :: u32 where "K2 = 0x6ED9EBA1"
definition K3 :: u32 where "K3 = 0x8F1BBCDC"
definition K4 :: u32 where "K4 = 0xCA62C1D6"

text \<open>
  The kernel helpers \<open>rol32\<close> (rotate a 32-bit word left) and \<open>be32_to_cpu\<close>
  applied to element \<open>i\<close> of the input seen as an array of big-endian 32-bit words.
\<close>

definition rol32 :: "u32 \<Rightarrow> nat \<Rightarrow> u32" where
  "rol32 w s = word_rotl s w"

definition be32_to_cpu :: "u8 list \<Rightarrow> nat \<Rightarrow> u32" where
  "be32_to_cpu inp i =
     push_bit 24 (ucast (inp ! (4 * i))) OR push_bit 16 (ucast (inp ! (4 * i + 1))) OR
     push_bit 8 (ucast (inp ! (4 * i + 2))) OR ucast (inp ! (4 * i + 3))"

text \<open>
  The two loops that fill \<open>workspace[80]\<close>: the first stores the 16 words of the
  block, the second expands them to 80. The array is a list of length 80; the C array is
  not initialised, and every element is stored before it is read.
\<close>

function load_words :: "nat \<Rightarrow> u8 list \<Rightarrow> u32 list \<Rightarrow> u32 list" where
  "load_words i inp workspace =
     (if i < 16 then load_words (Suc i) inp (workspace[i := be32_to_cpu inp i])
      else workspace)"
  by pat_completeness auto
termination
  by (relation "measure (\<lambda>(i, inp, workspace). 16 - i)") auto

function expand_words :: "nat \<Rightarrow> u32 list \<Rightarrow> u32 list" where
  "expand_words i workspace =
     (if i < 64
      then expand_words (Suc i)
             (workspace[i + 16 :=
                rol32 (workspace ! (i + 13) XOR workspace ! (i + 8) XOR
                       workspace ! (i + 2) XOR workspace ! i) 1])
      else workspace)"
  by pat_completeness auto
termination
  by (relation "measure (\<lambda>(i, workspace). 64 - i)") auto

declare load_words.simps [simp del] expand_words.simps [simp del]

text \<open>
  The body shared by the four round loops (with round function \<open>f\<close> and constant
  \<open>k\<close>), and the loop \<open>for (; i < n; i++)\<close> around it.
\<close>

definition sha_round :: "(u32 \<Rightarrow> u32 \<Rightarrow> u32 \<Rightarrow> u32) \<Rightarrow> u32 \<Rightarrow> u32 \<Rightarrow> sha1 \<Rightarrow> sha1" where
  "sha_round f k w v =
     (let t = f (sha1_b v) (sha1_c v) (sha1_d v) + k + rol32 (sha1_a v) 5 + sha1_e v + w
      in \<lparr>sha1_a = t, sha1_b = sha1_a v, sha1_c = rol32 (sha1_b v) 30,
          sha1_d = sha1_c v, sha1_e = sha1_d v\<rparr>)"

function sha_rounds ::
  "(u32 \<Rightarrow> u32 \<Rightarrow> u32 \<Rightarrow> u32) \<Rightarrow> u32 \<Rightarrow> nat \<Rightarrow> u32 list \<Rightarrow> nat \<Rightarrow> sha1 \<Rightarrow> sha1" where
  "sha_rounds f k n workspace i v =
     (if i < n then sha_rounds f k n workspace (Suc i) (sha_round f k (workspace ! i) v)
      else v)"
  by pat_completeness auto
termination
  by (relation "measure (\<lambda>(f, k, n, workspace, i, v). n - i)") auto

declare sha_rounds.simps [simp del]

text \<open>\<open>maxim_sha_transform\<close>: the result is what the function stores through \<open>sha1\<close>.\<close>

definition maxim_sha_transform :: "u8 list \<Rightarrow> sha1" where
  "maxim_sha_transform inp =
     (let workspace = load_words 0 inp (replicate 80 0);
          workspace = expand_words 0 workspace;
          v = \<lparr>sha1_a = 0x67452301, sha1_b = 0xefcdab89, sha1_c = 0x98badcfe,
               sha1_d = 0x10325476, sha1_e = 0xc3d2e1f0\<rparr>;
          v = sha_rounds f1 K1 20 workspace 0 v;
          v = sha_rounds f2 K2 40 workspace 20 v;
          v = sha_rounds f3 K3 60 workspace 40 v;
          v = sha_rounds f2 K4 80 workspace 60 v
      in v)"


subsection \<open>Error codes and sizes\<close>

text \<open>
  The three error codes the driver returns. A C function returning \<open>int\<close> yields
  \<open>0\<close> or a negated code: the model returns \<open>Inr\<close> or \<open>Inl\<close> of the code, and
  \<open>errno_ret\<close> is the C value (Linux: \<open>EPERM = 1\<close>, \<open>EIO = 5\<close>, \<open>EACCES = 13\<close>).
  The attribute endpoints return \<open>ssize_t\<close>, where a negated code is stored in the
  \<open>size_t\<close> variable \<open>count\<close>: \<open>neg_errno\<close> is that 64-bit value.
\<close>

datatype errno = EPERM | EIO | EACCES

definition errno_ret :: "errno \<Rightarrow> int" where
  "errno_ret e = (case e of EPERM \<Rightarrow> - 1 | EIO \<Rightarrow> - 5 | EACCES \<Rightarrow> - 13)"

definition neg_errno :: "errno \<Rightarrow> size_t" where
  "neg_errno e = of_int (errno_ret e)"

definition DS2432_WRITE_SCRATCHPAD :: u8 where "DS2432_WRITE_SCRATCHPAD = 0x0F"
definition DS2432_READ_SCRATCHPAD :: u8 where "DS2432_READ_SCRATCHPAD = 0xAA"
definition DS2432_COPY_SCRATCHPAD :: u8 where "DS2432_COPY_SCRATCHPAD = 0x55"
definition DS2432_LOAD_FIRST_SECRET :: u8 where "DS2432_LOAD_FIRST_SECRET = 0x5A"
definition DS2432_READ_MEMORY :: u8 where "DS2432_READ_MEMORY = 0xF0"

definition W1_DS2432_SECRET_ADDR :: c_int where "W1_DS2432_SECRET_ADDR = 0x80"
definition W1_DS2432_DATA_MEMORY_SIZE :: size_t where "W1_DS2432_DATA_MEMORY_SIZE = 0x80"

text \<open>\<open>struct w1_b3_data\<close>: the host-side secret and the registration number.\<close>

record w1_b3_data =
  b3_secret :: "u8 list"
  b3_registration_number :: "u8 list"

text \<open>
  \<open>w1_b3_fix_count\<close>. \<open>off\<close> is a \<open>loff_t\<close> and \<open>count\<close>, \<open>size\<close> (here
  \<open>sz\<close>) are \<open>size_t\<close>: the comparisons and the sum are taken in the unsigned 64-bit type, where
  the sum wraps.
\<close>

definition w1_b3_fix_count :: "size_t \<Rightarrow> size_t \<Rightarrow> size_t \<Rightarrow> size_t" where
  "w1_b3_fix_count off count sz =
     (if off > sz then 0
      else if off + count > sz then sz - off
      else count)"

subsection \<open>The 1-Wire transport\<close>

text \<open>
  Modelled from the spec: the transport of the kernel's w1 core, which the driver calls
  and the repository does not contain (\<open>w1_reset_select_slave\<close>, \<open>w1_write_block\<close>,
  \<open>w1_read_block\<close>, \<open>w1_read_8\<close>, \<open>w1_reset_bus\<close>, \<open>msleep\<close> and the bus
  mutex): reset-and-select, write a block of bytes, read a block of bytes, sleep.
  The device's side is an environment: \<open>select_fails k\<close> tells whether the \<open>k\<close>-th
  reset-and-select returns non-zero, and \<open>rx k\<close> is the \<open>k\<close>-th byte the master
  reads. The bus state counts how much of each has been consumed and records every call
  in \<open>trace\<close>.
\<close>

datatype event =
    MutexLock | MutexUnlock | ResetSelect | ResetBus
  | WriteBlock "u8 list" | ReadBlock nat | Read8 | Msleep nat

record bus =
  select_fails :: "nat \<Rightarrow> bool"
  nselect :: nat
  rx :: "nat \<Rightarrow> u8"
  nrx :: nat
  trace :: "event list"

definition mutex_lock :: "bus \<Rightarrow> bus" where
  "mutex_lock b = b\<lparr>trace := trace b @ [MutexLock]\<rparr>"

definition mutex_unlock :: "bus \<Rightarrow> bus" where
  "mutex_unlock b = b\<lparr>trace := trace b @ [MutexUnlock]\<rparr>"

definition w1_reset_select_slave :: "bus \<Rightarrow> bool \<times> bus" where
  "w1_reset_select_slave b =
     (select_fails b (nselect b),
      b\<lparr>nselect := Suc (nselect b), trace := trace b @ [ResetSelect]\<rparr>)"

definition w1_reset_bus :: "bus \<Rightarrow> bus" where
  "w1_reset_bus b = b\<lparr>trace := trace b @ [ResetBus]\<rparr>"

definition w1_write_block :: "bus \<Rightarrow> u8 list \<Rightarrow> bus" where
  "w1_write_block b buf = b\<lparr>trace := trace b @ [WriteBlock buf]\<rparr>"

text \<open>The length of \<open>w1_read_block\<close> is a C \<open>int\<close>; a length below 1 reads nothing.\<close>

definition w1_read_block :: "bus \<Rightarrow> c_int \<Rightarrow> u8 list \<times> bus" where
  "w1_read_block b len =
     (let n = nat (sint len)
      in (map (\<lambda>k. rx b (nrx b + k)) [0..<n],
          b\<lparr>nrx := nrx b + n, trace := trace b @ [ReadBlock n]\<rparr>))"

definition w1_read_8 :: "bus \<Rightarrow> u8 \<times> bus" where
  "w1_read_8 b = (rx b (nrx b), b\<lparr>nrx := Suc (nrx b), trace := trace b @ [Read8]\<rparr>)"

definition msleep :: "bus \<Rightarrow> nat \<Rightarrow> bus" where
  "msleep b ms = b\<lparr>trace := trace b @ [Msleep ms]\<rparr>"

text \<open>
  \<open>CONFIG_W1_SLAVE_DS2432_CRC\<close>: \<open>None\<close> when the option is off, \<open>Some crc16\<close> with
  the kernel's \<open>crc16\<close> function when it is on. Two bytes read into a \<open>u16\<close> in
  memory are its low and high byte (a little-endian host).
\<close>

type_synonym crc_config = "(u16 \<Rightarrow> u8 list \<Rightarrow> u16) option"

definition le16 :: "u8 list \<Rightarrow> u16" where
  "le16 bs = ucast (bs ! 0) OR push_bit 8 (ucast (bs ! 1))"

subsection \<open>Device commands\<close>

definition w1_ds2432_read_memory :: "bus \<Rightarrow> c_int \<Rightarrow> size_t \<Rightarrow> (errno + u8 list) \<times> bus" where
  "w1_ds2432_read_memory b address count =
     (let (failed, b) = w1_reset_select_slave b
      in if failed then (Inl EIO, b)
         else
           (let wrbuf = [DS2432_READ_MEMORY, ucast (address AND 0xff),
                         ucast (signed_drop_bit 8 address)];
                b = w1_write_block b wrbuf;
                (memory, b) = w1_read_block b (ucast count)
            in (Inr memory, b)))"

definition w1_ds2432_write_scratchpad ::
  "crc_config \<Rightarrow> bus \<Rightarrow> c_int \<Rightarrow> u8 list \<Rightarrow> (errno + unit) \<times> bus" where
  "w1_ds2432_write_scratchpad crc b address data =
     (let (failed, b) = w1_reset_select_slave b
      in if failed then (Inl EIO, b)
         else
           (let wrbuf = [DS2432_WRITE_SCRATCHPAD, ucast (address AND 0xff),
                         ucast (signed_drop_bit 8 address),
                         data ! 0, data ! 1, data ! 2, data ! 3,
                         data ! 4, data ! 5, data ! 6, data ! 7];
                b = w1_write_block b wrbuf;
                (crcbuf, b) = w1_read_block b 2;
                ds2432_scratchpad_crc = le16 crcbuf
            in case crc of
                 None \<Rightarrow> (Inr (), b)
               | Some crc16 \<Rightarrow>
                   (let my_scratchpad_crc = crc16 0 wrbuf;
                        ds2432_scratchpad_crc = NOT ds2432_scratchpad_crc
                    in if my_scratchpad_crc \<noteq> ds2432_scratchpad_crc then (Inl EIO, b)
                       else (Inr (), b))))"

text \<open>
  \<open>w1_ds2432_read_scratchpad\<close> returns what it stores through \<open>address\<close>, \<open>es\<close>
  and \<open>data\<close>.
\<close>

definition w1_ds2432_read_scratchpad ::
  "crc_config \<Rightarrow> bus \<Rightarrow> (errno + u16 \<times> u8 \<times> u8 list) \<times> bus" where
  "w1_ds2432_read_scratchpad crc b =
     (let (failed, b) = w1_reset_select_slave b
      in if failed then (Inl EIO, b)
         else
           (let wrbuf = [DS2432_READ_SCRATCHPAD];
                b = w1_write_block b wrbuf;
                (rdbuf, b) = w1_read_block b 3;
                address = ucast (push_bit 8 (ucast (rdbuf ! 1) :: c_int)) OR ucast (rdbuf ! 0);
                es = rdbuf ! 2;
                (data, b) = w1_read_block b 8;
                (crcbuf, b) = w1_read_block b 2;
                ds2432_scratchpad_crc = le16 crcbuf
            in case crc of
                 None \<Rightarrow> (Inr (address, es, data), b)
               | Some crc16 \<Rightarrow>
                   (let my_scratchpad_crc = crc16 0 wrbuf;
                        my_scratchpad_crc = crc16 my_scratchpad_crc rdbuf;
                        my_scratchpad_crc = crc16 my_scratchpad_crc data;
                        ds2432_scratchpad_crc = NOT ds2432_scratchpad_crc
                    in if my_scratchpad_crc \<noteq> ds2432_scratchpad_crc then (Inl EIO, b)
                       else (Inr (address, es, data), b))))"

definition w1_ds2432_load_first_secret :: "bus \<Rightarrow> u16 \<Rightarrow> u8 \<Rightarrow> (errno + unit) \<times> bus" where
  "w1_ds2432_load_first_secret b address es =
     (let (failed, b) = w1_reset_select_slave b
      in if failed then (Inl EIO, b)
         else
           (let load_first_secret = [DS2432_LOAD_FIRST_SECRET, ucast (address AND 0xff),
                                     ucast (drop_bit 8 address), es];
                b = w1_write_block b load_first_secret;
                b = msleep b 10;
                (success, b) = w1_read_8 b
            in if success \<noteq> 0xAA \<and> success \<noteq> 0x55 then (Inl EIO, b)
               else (Inr (), b)))"

subsection \<open>The authentication message and the MAC\<close>

text \<open>
  A loop \<open>for (i = lo; i < hi; i++) message[i] = src[i - shift]\<close> of \<open>generate_mac\<close>.
\<close>

function copy_loop :: "nat \<Rightarrow> nat \<Rightarrow> nat \<Rightarrow> u8 list \<Rightarrow> u8 list \<Rightarrow> u8 list" where
  "copy_loop i hi shift src message =
     (if i < hi then copy_loop (Suc i) hi shift src (message[i := src ! (i - shift)])
      else message)"
  by pat_completeness auto
termination
  by (relation "measure (\<lambda>(i, hi, shift, src, message). hi - i)") auto

declare copy_loop.simps [simp del]

text \<open>
  The 64-byte \<open>message\<close> that \<open>generate_mac\<close> assembles, in the order of its
  statements, and \<open>generate_mac\<close>, which hands it to the transform.
\<close>

definition auth_message ::
  "u8 list \<Rightarrow> u8 list \<Rightarrow> u16 \<Rightarrow> u8 list \<Rightarrow> u8 list \<Rightarrow> u8 list" where
  "auth_message secret scratchpad memory_page data_memory_page serial_number =
     (let message = replicate 64 0;
          message = copy_loop 0 4 0 secret message;
          message = copy_loop 4 32 4 data_memory_page message;
          message = copy_loop 32 40 32 scratchpad message;
          message = message[40 := ucast (drop_bit 5 (memory_page AND 0xf0))];
          message = copy_loop 41 48 41 serial_number message;
          message = copy_loop 48 52 44 secret message;
          message = message[52 := 0xff];
          message = message[53 := 0xff];
          message = message[54 := 0xff];
          message = message[55 := 0x80];
          message = message[56 := 0x00];
          message = message[57 := 0x00];
          message = message[58 := 0x00];
          message = message[59 := 0x00];
          message = message[60 := 0x00];
          message = message[61 := 0x00];
          message = message[62 := 0x01];
          message = message[63 := 0xb8]
      in message)"

definition generate_mac ::
  "u8 list \<Rightarrow> u8 list \<Rightarrow> u16 \<Rightarrow> u8 list \<Rightarrow> u8 list \<Rightarrow> sha1" where
  "generate_mac secret scratchpad memory_page data_memory_page serial_number =
     maxim_sha_transform
       (auth_message secret scratchpad memory_page data_memory_page serial_number)"

subsection \<open>Copy scratchpad\<close>

text \<open>
  A loop \<open>for (i = 0; i < 4; i++) { copy_scratchpad_mac[base + i] = (u8)(value & 0xff);
  value = value >> 8; }\<close> of \<open>w1_ds2432_copy_scratchpad\<close>.
\<close>

function store_word :: "nat \<Rightarrow> nat \<Rightarrow> u32 \<Rightarrow> u8 list \<Rightarrow> u8 list" where
  "store_word i base val copy_scratchpad_mac =
     (if i < 4
      then store_word (Suc i) base (drop_bit 8 val)
             (copy_scratchpad_mac[base + i := ucast (val AND 0xff)])
      else copy_scratchpad_mac)"
  by pat_completeness auto
termination
  by (relation "measure (\<lambda>(i, base, val, copy_scratchpad_mac). 4 - i)") auto

declare store_word.simps [simp del]

definition mac_wire_bytes :: "sha1 \<Rightarrow> u8 list" where
  "mac_wire_bytes mac =
     (let copy_scratchpad_mac = replicate 20 0;
          copy_scratchpad_mac = store_word 0 0 (sha1_e mac) copy_scratchpad_mac;
          copy_scratchpad_mac = store_word 0 4 (sha1_d mac) copy_scratchpad_mac;
          copy_scratchpad_mac = store_word 0 8 (sha1_c mac) copy_scratchpad_mac;
          copy_scratchpad_mac = store_word 0 12 (sha1_b mac) copy_scratchpad_mac;
          copy_scratchpad_mac = store_word 0 16 (sha1_a mac) copy_scratchpad_mac
      in copy_scratchpad_mac)"

definition w1_ds2432_copy_scratchpad ::
  "bus \<Rightarrow> u16 \<Rightarrow> u8 \<Rightarrow> sha1 \<Rightarrow> (errno + unit) \<times> bus" where
  "w1_ds2432_copy_scratchpad b address es mac =
     (let (failed, b) = w1_reset_select_slave b
      in if failed then (Inl EIO, b)
         else
           (let copy_scratchpad = [DS2432_COPY_SCRATCHPAD, ucast (address AND 0xff),
                                   ucast (drop_bit 8 address AND 0xff), es];
                b = w1_write_block b copy_scratchpad;
                b = msleep b 2;
                copy_scratchpad_mac = mac_wire_bytes mac;
                b = w1_write_block b copy_scratchpad_mac;
                b = msleep b 10;
                (success, b) = w1_read_8 b
            in if success = 0x00 then (Inl EACCES, b)
               else if success = 0xff then (Inl EPERM, b)
               else if success \<noteq> 0xAA \<and> success \<noteq> 0x55 then (Inl EIO, b)
               else (Inr (), b)))"

subsection \<open>Installing the secret\<close>

definition w1_ds2432_write_secret ::
  "crc_config \<Rightarrow> bus \<Rightarrow> u8 list \<Rightarrow> (errno + unit) \<times> bus" where
  "w1_ds2432_write_secret crc b secret =
     (let (failed, b) = w1_reset_select_slave b
      in if failed then (Inl EIO, b)
         else
           (case w1_ds2432_write_scratchpad crc b W1_DS2432_SECRET_ADDR secret of
              (Inl error, b) \<Rightarrow> (Inl error, b)
            | (Inr _, b) \<Rightarrow>
                (case w1_ds2432_read_scratchpad crc b of
                   (Inl error, b) \<Rightarrow> (Inl error, b)
                 | (Inr (address, es, data), b) \<Rightarrow>
                     if ucast address \<noteq> W1_DS2432_SECRET_ADDR then (Inl EIO, b)
                     else if drop_bit 5 es AND 1 \<noteq> 0 then (Inl EIO, b)
                     else
                       (case w1_ds2432_load_first_secret b address es of
                          (Inl error, b) \<Rightarrow> (Inl error, b)
                        | (Inr _, b) \<Rightarrow> (Inr (), w1_reset_bus b)))))"

subsection \<open>The eeprom attribute\<close>

text \<open>
  \<open>eeprom_read\<close> returns its \<open>ssize_t\<close> result, the bytes it stored into \<open>buf\<close>
  and the bus. The result of \<open>w1_ds2432_read_memory\<close> is not looked at.
\<close>

definition eeprom_read :: "bus \<Rightarrow> size_t \<Rightarrow> size_t \<Rightarrow> size_t \<times> u8 list \<times> bus" where
  "eeprom_read b off count =
     (let count = w1_b3_fix_count off count W1_DS2432_DATA_MEMORY_SIZE
      in if count = 0 then (0, [], b)
         else
           (let b = mutex_lock b;
                (failed, b) = w1_reset_select_slave b
            in if failed then (neg_errno EIO, [], mutex_unlock b)
               else
                 (let (r, b) = w1_ds2432_read_memory b (ucast off) count
                  in (count, (case r of Inl error \<Rightarrow> [] | Inr memory \<Rightarrow> memory),
                      mutex_unlock b))))"

text \<open>\<open>memcmp (p, q, n) != 0\<close> on the first \<open>n\<close> bytes of two buffers.\<close>

definition memcmp_differs :: "u8 list \<Rightarrow> u8 list \<Rightarrow> nat \<Rightarrow> bool" where
  "memcmp_differs p q n = list_ex (\<lambda>k. p ! k \<noteq> q ! k) [0..<n]"

definition eeprom_write_block ::
  "crc_config \<Rightarrow> w1_b3_data \<Rightarrow> bus \<Rightarrow> u16 \<Rightarrow> u8 list \<Rightarrow> (errno + unit) \<times> bus" where
  "eeprom_write_block crc b3_data b address data =
     (case w1_ds2432_read_memory b ((ucast address div 32) * 32) 32 of
        (Inl error, b) \<Rightarrow> (Inl error, b)
      | (Inr data_memory_page, b) \<Rightarrow>
          (case w1_ds2432_write_scratchpad crc b (ucast address) data of
             (Inl error, b) \<Rightarrow> (Inl error, b)
           | (Inr _, b) \<Rightarrow>
               (case w1_ds2432_read_scratchpad crc b of
                  (Inl error, b) \<Rightarrow> (Inl error, b)
                | (Inr (sp_address, es, scratchpad), b) \<Rightarrow>
                    if sp_address \<noteq> address then (Inl EIO, b)
                    else if drop_bit 5 es AND 1 \<noteq> 0 then (Inl EIO, b)
                    else if memcmp_differs scratchpad data 8 then (Inl EIO, b)
                    else
                      (let mac = generate_mac (b3_secret b3_data) scratchpad address
                                   data_memory_page (b3_registration_number b3_data)
                       in w1_ds2432_copy_scratchpad b sp_address es mac))))"

text \<open>
  The loop \<open>while (address < count)\<close> of \<open>eeprom_write\<close>, with \<open>address\<close> a
  \<open>u8\<close> that wraps at 256: the loop need not end, so not returning is \<open>None\<close>.
  \<open>&buf[address]\<close> is the buffer from index \<open>address\<close> on.
\<close>

partial_function (option) eeprom_write_loop ::
  "crc_config \<Rightarrow> w1_b3_data \<Rightarrow> u8 list \<Rightarrow> size_t \<Rightarrow> u8 \<Rightarrow> bus \<Rightarrow> (size_t \<times> bus) option" where
  "eeprom_write_loop crc b3_data buf count address b =
     (if ucast address < count
      then (case eeprom_write_block crc b3_data b (ucast address) (drop (unat address) buf) of
              (Inl error, b) \<Rightarrow> Some (neg_errno error, b)
            | (Inr _, b) \<Rightarrow> eeprom_write_loop crc b3_data buf count (address + 8) b)
      else Some (count, b))"

definition eeprom_write ::
  "crc_config \<Rightarrow> w1_b3_data \<Rightarrow> bus \<Rightarrow> u8 list \<Rightarrow> size_t \<Rightarrow> size_t \<Rightarrow> (size_t \<times> bus) option" where
  "eeprom_write crc b3_data b buf off count =
     (let b = mutex_lock b;
          (failed, b) = w1_reset_select_slave b
      in if failed then Some (neg_errno EIO, mutex_unlock b)
         else
           (case eeprom_write_loop crc b3_data buf count 0 b of
              None \<Rightarrow> None
            | Some (count, b) \<Rightarrow> Some (count, mutex_unlock b)))"

subsection \<open>The secret-sync attribute\<close>

text \<open>\<open>secret_sync_write\<close>: the result of \<open>w1_ds2432_write_secret\<close> is not looked at.\<close>

definition secret_sync_write ::
  "crc_config \<Rightarrow> w1_b3_data \<Rightarrow> bus \<Rightarrow> u8 list \<Rightarrow> size_t \<Rightarrow> size_t \<Rightarrow> size_t \<times> bus" where
  "secret_sync_write crc b3_data b buf off count =
     (let b = mutex_lock b;
          (failed, b) = w1_reset_select_slave b
      in if failed then (neg_errno EIO, mutex_unlock b)
         else
           (let (r, b) = w1_ds2432_write_secret crc b (b3_secret b3_data)
            in (count, mutex_unlock b)))"


section \<open>The single-block SHA-1 pass without the final addition, as the specification words it\<close>

text \<open>
  A 32-bit word read big-endian from four bytes, the 16 words of a 64-byte block, the
  message schedule \<open>W\<^sub>t = ROTL\<^sup>1(W\<^bsub>t-3\<^esub> XOR W\<^bsub>t-8\<^esub> XOR W\<^bsub>t-14\<^esub> XOR W\<^bsub>t-16\<^esub>)\<close>
  (the words at offsets 13, 8, 2 and 0 from \<open>t - 16\<close>), the round functions
  Ch, Parity, Maj, Parity, the round constants, and 80 rounds from the SHA-1 initial
  state. The five working variables after round 80 are the result.
\<close>

definition be_word :: "u8 list \<Rightarrow> u32" where
  "be_word bs = of_nat (foldl (\<lambda>acc b. acc * 256 + unat b) 0 bs)"

definition sha1_Ch :: "u32 \<Rightarrow> u32 \<Rightarrow> u32 \<Rightarrow> u32" where
  "sha1_Ch x y z = (x AND y) XOR (NOT x AND z)"

definition sha1_Parity :: "u32 \<Rightarrow> u32 \<Rightarrow> u32 \<Rightarrow> u32" where
  "sha1_Parity x y z = x XOR y XOR z"

definition sha1_Maj :: "u32 \<Rightarrow> u32 \<Rightarrow> u32 \<Rightarrow> u32" where
  "sha1_Maj x y z = (x AND y) XOR (x AND z) XOR (y AND z)"

definition sha1_f :: "nat \<Rightarrow> u32 \<Rightarrow> u32 \<Rightarrow> u32 \<Rightarrow> u32" where
  "sha1_f t = (if t < 20 then sha1_Ch else if t < 40 then sha1_Parity
               else if t < 60 then sha1_Maj else sha1_Parity)"

definition sha1_K :: "nat \<Rightarrow> u32" where
  "sha1_K t = (if t < 20 then 0x5A827999 else if t < 40 then 0x6ED9EBA1
               else if t < 60 then 0x8F1BBCDC else 0xCA62C1D6)"

definition sha1_block_words :: "u8 list \<Rightarrow> u32 list" where
  "sha1_block_words blk = map (\<lambda>i. be_word (take 4 (drop (4 * i) blk))) [0..<16]"

definition sha1_extend :: "u32 list \<Rightarrow> u32 list" where
  "sha1_extend W =
     (let t = length W
      in W @ [word_rotl 1 (W ! (t - 3) XOR W ! (t - 8) XOR W ! (t - 14) XOR W ! (t - 16))])"

definition sha1_schedule :: "u8 list \<Rightarrow> u32 list" where
  "sha1_schedule blk = (sha1_extend ^^ 64) (sha1_block_words blk)"

definition sha1_init :: sha1 where
  "sha1_init = \<lparr>sha1_a = 0x67452301, sha1_b = 0xEFCDAB89, sha1_c = 0x98BADCFE,
                sha1_d = 0x10325476, sha1_e = 0xC3D2E1F0\<rparr>"

definition sha1_step :: "u32 list \<Rightarrow> nat \<Rightarrow> sha1 \<Rightarrow> sha1" where
  "sha1_step W t v =
     \<lparr>sha1_a = word_rotl 5 (sha1_a v) + sha1_f t (sha1_b v) (sha1_c v) (sha1_d v)
                + sha1_e v + sha1_K t + W ! t,
      sha1_b = sha1_a v, sha1_c = word_rotl 30 (sha1_b v), sha1_d = sha1_c v,
      sha1_e = sha1_d v\<rparr>"

definition sha1_rounds_only :: "u8 list \<Rightarrow> sha1" where
  "sha1_rounds_only blk = fold (sha1_step (sha1_schedule blk)) [0..<80] sha1_init"

section \<open>A whole-buffer write, as the specification words it\<close>

text \<open>
  Successive \<open>eeprom_write_block\<close> calls at the given addresses, each with the
  buffer bytes from that index on; the first failing block aborts the remaining sequence
  and its error is the outcome.
\<close>

fun write_blocks ::
  "crc_config \<Rightarrow> w1_b3_data \<Rightarrow> u8 list \<Rightarrow> nat list \<Rightarrow> bus \<Rightarrow> (errno + unit) \<times> bus" where
  "write_blocks crc b3_data buf [] b = (Inr (), b)"
| "write_blocks crc b3_data buf (a # as) b =
     (case eeprom_write_block crc b3_data b (of_nat a) (drop a buf) of
        (Inl error, b) \<Rightarrow> (Inl error, b)
      | (Inr _, b) \<Rightarrow> write_blocks crc b3_data buf as b)"

section \<open>Concrete inputs\<close>

text \<open>
  A bus on which every reset-and-select succeeds and the device sends the bytes
  \<open>resp 0\<close>, \<open>resp 1\<close>, ...; a secret, a scratchpad content, a memory page and a
  registration number.
\<close>

definition bus_up :: "(nat \<Rightarrow> u8) \<Rightarrow> bus" where
  "bus_up resp = \<lparr>select_fails = (\<lambda>k. False), nselect = 0, rx = resp, nrx = 0, trace = []\<rparr>"

definition ex_secret :: "u8 list" where
  "ex_secret = [0x01, 0x02, 0x03, 0x04, 0x05, 0x06, 0x07, 0x08]"

definition ex_scratchpad :: "u8 list" where
  "ex_scratchpad = [0x11, 0x12, 0x13, 0x14, 0x15, 0x16, 0x17, 0x18]"

definition ex_page :: "u8 list" where
  "ex_page = replicate 32 0x5A"

definition ex_serial :: "u8 list" where
  "ex_serial = [0xB3, 0x21, 0x22, 0x23, 0x24, 0x25, 0x26, 0x27]"

definition ex_mac :: sha1 where
  "ex_mac = \<lparr>sha1_a = 0x01020304, sha1_b = 0x11121314, sha1_c = 0x21222324,
             sha1_d = 0x31323334, sha1_e = 0x41424344\<rparr>"

text \<open>
  What a device sends while a secret is installed with the CRC check compiled out:
  two CRC bytes, the scratchpad status (address \<open>0x0080\<close>, ES \<open>0x00\<close>), eight data
  bytes, two CRC bytes, and then the status byte of load-first-secret.
\<close>

definition install_resp :: "u8 \<Rightarrow> nat \<Rightarrow> u8" where
  "install_resp status k = (if k = 2 then 0x80 else if k = 15 then status else 0x00)"

text \<open>
  What a device sends while blocks of zero bytes are written from address 0 on with the
  CRC check compiled out. Each block takes 48 bytes from the device: the 32 bytes of the
  page (all zero), two CRC bytes, the scratchpad status (the block's address, ES
  \<open>0x00\<close>), eight data bytes (zero), two CRC bytes, and the status byte of
  copy-scratchpad, which is \<open>0x00\<close> for block number \<open>rejected\<close> and \<open>0xAA\<close> for
  every other block.
\<close>

definition eeprom_resp :: "nat \<Rightarrow> nat \<Rightarrow> u8" where
  "eeprom_resp rejected k =
     (if k mod 48 = 34 then of_nat (8 * (k div 48))
      else if k mod 48 = 47 then (if k div 48 = rejected then 0x00 else 0xAA)
      else 0x00)"

definition ex_device :: w1_b3_data where
  "ex_device = \<lparr>b3_secret = ex_secret, b3_registration_number = ex_serial\<rparr>"


section \<open>The MAC transform is the SHA-1 rounds\<close>

lemma f1_ch: "f1 x y z = (x AND y) XOR (NOT x AND z)"
  unfolding f1_def by (rule bit_eqI) (auto simp: bit_simps)

lemma f3_maj: "f3 x y z = (x AND y) XOR (x AND z) XOR (y AND z)"
proof -
  have "(x AND y) + (z AND (x XOR y)) = (x AND y) XOR (z AND (x XOR y))"
    by (rule disjunctive_add_eq_xor) (rule bit_eqI, auto simp: bit_simps dest: bit_imp_le_length)
  also have "\<dots> = (x AND y) XOR (x AND z) XOR (y AND z)"
    by (rule bit_eqI) (auto simp: bit_simps)
  finally show ?thesis by (simp add: f3_def)
qed

lemma be32_arith:
  fixes b0 b1 b2 b3 :: u8
  shows "push_bit 24 (ucast b0) OR push_bit 16 (ucast b1) OR push_bit 8 (ucast b2) OR (ucast b3 :: u32)
     = of_nat (((unat b0 * 256 + unat b1) * 256 + unat b2) * 256 + unat b3)"
proof -
  let ?w0 = "ucast b0 :: u32" and ?w1 = "ucast b1 :: u32" and ?w2 = "ucast b2 :: u32" and ?w3 = "ucast b3 :: u32"
  have d1: "push_bit 8 ?w2 + ?w3 = push_bit 8 ?w2 OR ?w3"
    by (rule disjunctive_add_eq_or) (rule bit_eqI, auto simp: bit_simps dest: bit_imp_le_length)
  have d2: "push_bit 16 ?w1 + (push_bit 8 ?w2 OR ?w3) = push_bit 16 ?w1 OR (push_bit 8 ?w2 OR ?w3)"
    by (rule disjunctive_add_eq_or) (rule bit_eqI, auto simp: bit_simps dest: bit_imp_le_length)
  have d3: "push_bit 24 ?w0 + (push_bit 16 ?w1 OR (push_bit 8 ?w2 OR ?w3)) =
            push_bit 24 ?w0 OR (push_bit 16 ?w1 OR (push_bit 8 ?w2 OR ?w3))"
    by (rule disjunctive_add_eq_or) (rule bit_eqI, auto simp: bit_simps dest: bit_imp_le_length)
  have "push_bit 24 ?w0 OR push_bit 16 ?w1 OR push_bit 8 ?w2 OR ?w3 = push_bit 24 ?w0 + (push_bit 16 ?w1 + (push_bit 8 ?w2 + ?w3))"
    by (simp only: or.assoc d1 d2 d3)
  also have "\<dots> = of_nat (((unat b0 * 256 + unat b1) * 256 + unat b2) * 256 + unat b3)"
    by (simp add: push_bit_eq_mult algebra_simps)
  finally show ?thesis .
qed

lemma length_load_words: "length (load_words i inp ws) = length ws"
  by (induction i inp ws rule: load_words.induct) (subst load_words.simps, simp)

lemma nth_load_words:
  "j < length ws \<Longrightarrow>
   load_words i inp ws ! j = (if i \<le> j \<and> j < 16 then be32_to_cpu inp j else ws ! j)"
proof (induction i inp ws rule: load_words.induct)
  case (1 i inp workspace)
  show ?case
  proof (cases "i < 16")
    case True
    with 1 show ?thesis
      by (subst load_words.simps) (cases "j = i"; auto simp: nth_list_update)
  next
    case False
    then show ?thesis by (subst load_words.simps) auto
  qed
qed

lemma be32_to_cpu_be_word:
  assumes "4 * i + 4 \<le> length inp"
  shows "be32_to_cpu inp i = be_word (take 4 (drop (4 * i) inp))"
proof -
  have "take 4 (drop (4 * i) inp) =
        [inp ! (4 * i), inp ! (4 * i + 1), inp ! (4 * i + 2), inp ! (4 * i + 3)]"
    using assms by (intro nth_equalityI) (auto simp: nth_Cons' less_Suc_eq numeral_eq_Suc)
  then show ?thesis
    by (simp add: be32_to_cpu_def be_word_def be32_arith)
qed

lemma take16_load_words:
  assumes "length inp = 64"
  shows "take 16 (load_words 0 inp (replicate 80 0)) = sha1_block_words inp"
  using assms
  by (intro nth_equalityI)
     (auto simp: length_load_words nth_load_words sha1_block_words_def be32_to_cpu_be_word)

lemma expand_words_extend:
  "length ws = 80 \<Longrightarrow> i \<le> 64 \<Longrightarrow>
   expand_words i ws = (sha1_extend ^^ (64 - i)) (take (i + 16) ws)"
proof (induction i ws rule: expand_words.induct)
  case (1 i workspace)
  show ?case
  proof (cases "i < 64")
    case True
    let ?x = "rol32 (workspace ! (i + 13) XOR workspace ! (i + 8) XOR
                     workspace ! (i + 2) XOR workspace ! i) 1"
    let ?ws = "workspace[i + 16 := ?x]"
    have "take (Suc (i + 16)) ?ws = take (i + 16) ?ws @ [?ws ! (i + 16)]"
      using True 1(2) by (intro take_Suc_conv_app_nth) simp
    then have step: "take (Suc i + 16) ?ws = sha1_extend (take (i + 16) workspace)"
      using True 1(2)
      by (simp add: sha1_extend_def rol32_def min_def add.commute)
    have "expand_words i workspace = expand_words (Suc i) ?ws"
      using True by (subst expand_words.simps) simp
    also have "\<dots> = (sha1_extend ^^ (64 - Suc i)) (take (Suc i + 16) ?ws)"
      using True 1 by simp
    also have "\<dots> = (sha1_extend ^^ Suc (63 - i)) (take (i + 16) workspace)"
      by (simp only: step funpow_Suc_right o_apply) simp
    also have "Suc (63 - i) = 64 - i"
      using True by simp
    finally show ?thesis .
  next
    case False
    with 1(2,3) show ?thesis by (subst expand_words.simps) simp
  qed
qed

lemma sha_rounds_fold:
  "sha_rounds f k n ws i v = fold (\<lambda>t. sha_round f k (ws ! t)) [i..<n] v"
proof (induction f k n ws i v rule: sha_rounds.induct)
  case (1 f k n workspace i v)
  show ?case
  proof (cases "i < n")
    case True
    with 1 show ?thesis
      by (subst sha_rounds.simps) (simp add: upt_conv_Cons)
  next
    case False
    then show ?thesis by (subst sha_rounds.simps) simp
  qed
qed

lemma sha_round_step:
  assumes "f = (if t < 20 then f1 else if t < 40 then f2 else if t < 60 then f3 else f2)"
      and "k = (if t < 20 then K1 else if t < 40 then K2 else if t < 60 then K3 else K4)"
  shows "sha_round f k (W ! t) v = sha1_step W t v"
  using assms
  by (auto simp: sha_round_def sha1_step_def sha1_f_def sha1_K_def Let_def rol32_def
        K1_def K2_def K3_def K4_def fun_eq_iff f1_ch f3_maj f2_def
        sha1_Ch_def sha1_Maj_def sha1_Parity_def)

lemma sha_rounds_steps:
  assumes "\<And>t. lo \<le> t \<Longrightarrow> t < hi \<Longrightarrow>
             f = (if t < 20 then f1 else if t < 40 then f2 else if t < 60 then f3 else f2) \<and>
             k = (if t < 20 then K1 else if t < 40 then K2 else if t < 60 then K3 else K4)"
  shows "sha_rounds f k hi W lo v = fold (sha1_step W) [lo..<hi] v"
  unfolding sha_rounds_fold
  by (rule fold_cong) (use assms in \<open>auto intro!: sha_round_step\<close>)

lemma upt_80_split: "[0..<80] = [0..<20] @ [20..<40] @ [40..<60] @ [60..<80]"
proof -
  have "[0..<80] = [0..<20 + 60]" by simp
  also have "\<dots> = [0..<20] @ [20..<20 + 60]" by (rule upt_add_eq_append) simp
  also have "[20..<20 + 60] = [20..<40 + 40]" by simp
  also have "\<dots> = [20..<40] @ [40..<40 + 40]" by (rule upt_add_eq_append) simp
  also have "[40..<40 + 40] = [40..<60 + 20]" by simp
  also have "\<dots> = [40..<60] @ [60..<60 + 20]" by (rule upt_add_eq_append) simp
  finally show ?thesis by simp
qed

text \<open>
  Claim C1. On every 64-byte input, \<open>maxim_sha_transform\<close> is one single-block SHA-1
  compression pass: big-endian words, the standard 80-word schedule, the standard initial
  state, round functions and constants, and no final addition: its result is the five
  working variables as they stand after round 80.
\<close>

theorem maxim_sha_transform_is_sha1_rounds:
  assumes "length inp = 64"
  shows "maxim_sha_transform inp = sha1_rounds_only inp"
proof -
  let ?ws = "expand_words 0 (load_words 0 inp (replicate 80 0))"
  have ws: "?ws = sha1_schedule inp"
    using assms
    by (simp add: expand_words_extend length_load_words sha1_schedule_def take16_load_words)
  have r1: "sha_rounds f1 K1 20 W 0 v = fold (sha1_step W) [0..<20] v" for W v
    by (rule sha_rounds_steps) simp
  have r2: "sha_rounds f2 K2 40 W 20 v = fold (sha1_step W) [20..<40] v" for W v
    by (rule sha_rounds_steps) simp
  have r3: "sha_rounds f3 K3 60 W 40 v = fold (sha1_step W) [40..<60] v" for W v
    by (rule sha_rounds_steps) simp
  have r4: "sha_rounds f2 K4 80 W 60 v = fold (sha1_step W) [60..<80] v" for W v
    by (rule sha_rounds_steps) simp
  show ?thesis
    unfolding maxim_sha_transform_def sha1_rounds_only_def Let_def ws r1 r2 r3 r4
      upt_80_split fold_append sha1_init_def
    by simp
qed

theorem maxim_sha_transform_is_sha1_rounds_witness:
  "length (replicate 64 (0 :: u8)) = 64 \<and>
   maxim_sha_transform (replicate 64 0) = sha1_rounds_only (replicate 64 0)"
  using maxim_sha_transform_is_sha1_rounds [of "replicate 64 0"] by simp

section \<open>The authentication message and the wire format of the MAC\<close>

lemma length_copy_loop: "length (copy_loop i hi shift src message) = length message"
  by (induction i hi shift src message rule: copy_loop.induct)
     (subst copy_loop.simps, simp)

lemma nth_copy_loop:
  "j < length message \<Longrightarrow>
   copy_loop i hi shift src message ! j =
     (if i \<le> j \<and> j < hi then src ! (j - shift) else message ! j)"
proof (induction i hi shift src message rule: copy_loop.induct)
  case (1 i hi shift src message)
  show ?case
  proof (cases "i < hi")
    case True
    with 1 show ?thesis
      by (subst copy_loop.simps) (cases "j = i"; auto simp: nth_list_update)
  next
    case False
    then show ?thesis by (subst copy_loop.simps) auto
  qed
qed


lemma length_auth_message:
  "length (auth_message secret scratchpad memory_page data_memory_page serial_number) = 64"
  by (simp add: auth_message_def Let_def length_copy_loop)

lemma auth_message_nth:
  assumes "i < 64"
  shows "auth_message secret scratchpad memory_page data_memory_page serial_number ! i =
     (if i < 4 then secret ! i
      else if i < 32 then data_memory_page ! (i - 4)
      else if i < 40 then scratchpad ! (i - 32)
      else if i = 40 then ucast (drop_bit 5 (memory_page AND 0xf0))
      else if i < 48 then serial_number ! (i - 41)
      else if i < 52 then secret ! (i - 44)
      else [0xff, 0xff, 0xff, 0x80, 0x00, 0x00, 0x00, 0x00, 0x00, 0x00, 0x01, 0xb8] ! (i - 52))"
proof -
  have "i < 52 \<or> i = 52 \<or> i = 53 \<or> i = 54 \<or> i = 55 \<or> i = 56 \<or> i = 57
    \<or> i = 58 \<or> i = 59 \<or> i = 60 \<or> i = 61 \<or> i = 62 \<or> i = 63"
    using assms by presburger
  then consider "i < 52" | "i = 52" | "i = 53" | "i = 54" | "i = 55" | "i = 56" | "i = 57"
    | "i = 58" | "i = 59" | "i = 60" | "i = 61" | "i = 62" | "i = 63"
    by blast
  then show ?thesis
    by cases
       (simp_all add: auth_message_def Let_def length_copy_loop nth_copy_loop
          nth_list_update)
qed

lemma length_store_word: "length (store_word i base val buf) = length buf"
  by (induction i base val buf rule: store_word.induct) (subst store_word.simps, simp)

lemma ucast_and_ff: "(ucast (v AND 0xff :: u32) :: u8) = ucast v"
proof -
  have m: "(0xff :: u32) = mask 8"
    by (simp add: mask_eq_exp_minus_1)
  have "(ucast (v AND mask 8 :: u32) :: u8) = ucast v"
    by (rule bit_eqI) (auto simp: bit_simps dest: bit_imp_le_length)
  then show ?thesis
    by (simp only: m)
qed

lemma nth_store_word:
  "j < length buf \<Longrightarrow>
   store_word i base val buf ! j =
     (if base + i \<le> j \<and> j < base + 4 then ucast (drop_bit (8 * (j - (base + i))) val)
      else buf ! j)"
proof (induction i base val buf rule: store_word.induct)
  case (1 i base val buf)
  show ?case
  proof (cases "i < 4")
    case True
    with 1 show ?thesis
      by (subst store_word.simps)
         (cases "j = base + i";
          auto simp: nth_list_update ucast_and_ff
               simp flip: add_Suc_right, (simp add: algebra_simps Suc_diff_le)?)
  next
    case False
    then show ?thesis by (subst store_word.simps) auto
  qed
qed

lemma length_mac_wire_bytes: "length (mac_wire_bytes mac) = 20"
  by (simp add: mac_wire_bytes_def Let_def length_store_word)

lemma mac_wire_bytes_nth:
  assumes "k < 5" "j < 4"
  shows "mac_wire_bytes mac ! (4 * k + j) =
         ucast (drop_bit (8 * j) ([sha1_e mac, sha1_d mac, sha1_c mac, sha1_b mac, sha1_a mac] ! k))"
proof -
  consider "k = 0" | "k = 1" | "k = 2" | "k = 3" | "k = 4"
    using assms(1) by arith
  then show ?thesis
    using assms(2)
    by cases (simp_all add: mac_wire_bytes_def Let_def length_store_word nth_store_word)
qed

lemma drop_52_auth_message:
  "drop 52 (auth_message secret scratchpad memory_page data_memory_page serial_number) =
   [0xff, 0xff, 0xff, 0x80, 0x00, 0x00, 0x00, 0x00, 0x00, 0x00, 0x01, 0xb8]"
  by (rule nth_equalityI) (simp_all add: length_auth_message auth_message_nth)

text \<open>
  Claim C2 (as amended). For a secret, scratchpad and serial number of 8 bytes and at
  least 28 bytes of page data, the authentication message is, in order: \<open>secret[0..4)\<close>
  (bytes 0-3), the first 28 bytes of page data (4-31), the 8 scratchpad bytes (32-39),
  the byte \<open>(address & 0xF0) >> 5\<close> (40), the first seven bytes of the serial number
  (41-47), \<open>secret[4..8)\<close> (48-51), and the twelve fixed bytes
  FF FF FF 80 00 00 00 00 00 00 01 B8 (52-63); \<open>generate_mac\<close> transforms exactly this
  message.
\<close>

theorem auth_message_layout:
  assumes "length secret = 8" and "28 \<le> length data_memory_page"
      and "length scratchpad = 8" and "length serial_number = 8"
  shows "auth_message secret scratchpad memory_page data_memory_page serial_number =
           take 4 secret @ take 28 data_memory_page @ scratchpad @
           [ucast (drop_bit 5 (memory_page AND 0xf0))] @ take 7 serial_number @
           drop 4 secret @
           [0xff, 0xff, 0xff, 0x80, 0x00, 0x00, 0x00, 0x00, 0x00, 0x00, 0x01, 0xb8] \<and>
         generate_mac secret scratchpad memory_page data_memory_page serial_number =
           maxim_sha_transform
             (auth_message secret scratchpad memory_page data_memory_page serial_number)"
proof -
  let ?m = "auth_message secret scratchpad memory_page data_memory_page serial_number"
  let ?r = "take 4 secret @ take 28 data_memory_page @ scratchpad @
           [ucast (drop_bit 5 (memory_page AND 0xf0))] @ take 7 serial_number @
           drop 4 secret @
           [0xff, 0xff, 0xff, 0x80, 0x00, 0x00, 0x00, 0x00, 0x00, 0x00, 0x01, 0xb8 :: u8]"
  have len: "length ?r = 64"
    using assms by simp
  have nth: "?m ! i = ?r ! i" if "i < 64" for i
  proof -
    have "i < 4 \<or> (4 \<le> i \<and> i < 32) \<or> (32 \<le> i \<and> i < 40) \<or> i = 40
      \<or> (41 \<le> i \<and> i < 48) \<or> (48 \<le> i \<and> i < 52) \<or> (52 \<le> i \<and> i < 64)"
      using that by linarith
    then consider "i < 4" | "4 \<le> i" "i < 32" | "32 \<le> i" "i < 40" | "i = 40"
      | "41 \<le> i" "i < 48" | "48 \<le> i" "i < 52" | "52 \<le> i" "i < 64"
      by blast
    then show ?thesis
      using assms by cases (auto simp: auth_message_nth nth_append)
  qed
  have "length ?m = length ?r"
    by (simp only: length_auth_message len)
  then have "?m = ?r"
    by (rule nth_equalityI) (simp only: length_auth_message nth)
  then show ?thesis
    by (simp add: generate_mac_def)
qed

theorem auth_message_layout_witness:
  "auth_message ex_secret ex_scratchpad 0x0060 ex_page ex_serial =
     [0x01, 0x02, 0x03, 0x04] @ replicate 28 0x5A @
     [0x11, 0x12, 0x13, 0x14, 0x15, 0x16, 0x17, 0x18] @ [0x03] @
     [0xB3, 0x21, 0x22, 0x23, 0x24, 0x25, 0x26] @ [0x05, 0x06, 0x07, 0x08] @
     [0xff, 0xff, 0xff, 0x80, 0x00, 0x00, 0x00, 0x00, 0x00, 0x00, 0x01, 0xb8]"
  using auth_message_layout [of ex_secret ex_page ex_scratchpad ex_serial "0x0060"]
  by (simp add: ex_secret_def ex_page_def ex_scratchpad_def ex_serial_def)

text \<open>
  Claim C2 as stated calls bytes 52-63 a fifteen-byte padding sequence: the sequence that
  follows byte 51 has twelve bytes.
\<close>

theorem auth_message_padding_not_fifteen:
  "length (drop 52 (auth_message ex_secret ex_scratchpad 0x0060 ex_page ex_serial)) = 12 \<and>
   length (drop 52 (auth_message ex_secret ex_scratchpad 0x0060 ex_page ex_serial)) \<noteq> 15"
  by (simp add: drop_52_auth_message)

section \<open>Copy scratchpad: outcome and bus traffic\<close>

lemmas bus_defs = w1_reset_select_slave_def w1_write_block_def w1_read_block_def
  w1_read_8_def msleep_def w1_reset_bus_def mutex_lock_def mutex_unlock_def

lemma copy_scratchpad_result:
  assumes "\<not> select_fails b (nselect b)"
  shows "fst (w1_ds2432_copy_scratchpad b address es mac) =
           (if rx b (nrx b) = 0x00 then Inl EACCES
            else if rx b (nrx b) = 0xff then Inl EPERM
            else if rx b (nrx b) = 0xAA \<or> rx b (nrx b) = 0x55 then Inr ()
            else Inl EIO)"
  using assms by (simp add: w1_ds2432_copy_scratchpad_def bus_defs Let_def)

lemma copy_scratchpad_trace:
  assumes "\<not> select_fails b (nselect b)"
  shows "trace (snd (w1_ds2432_copy_scratchpad b address es mac)) =
           trace b @ [ResetSelect,
                      WriteBlock [DS2432_COPY_SCRATCHPAD, ucast (address AND 0xff),
                                  ucast (drop_bit 8 address AND 0xff), es],
                      Msleep 2, WriteBlock (mac_wire_bytes mac), Msleep 10, Read8]"
  using assms by (simp add: w1_ds2432_copy_scratchpad_def bus_defs Let_def)

text \<open>
  Claim C4. Once the device is selected, \<open>w1_ds2432_copy_scratchpad\<close> sends the
  command and the MAC, reads one byte, and classifies that byte into four outcomes:
  \<open>0x00\<close> is \<open>-EACCES\<close> (authentication rejected), \<open>0xFF\<close> is \<open>-EPERM\<close>
  (write-protected), \<open>0xAA\<close> and \<open>0x55\<close> are success, and every other byte is
  \<open>-EIO\<close>. The three error values and the success value \<open>0\<close> are pairwise different.
\<close>

theorem copy_scratchpad_classifies_disposition:
  assumes "\<not> select_fails b (nselect b)"
  shows "(rx b (nrx b) = 0x00 \<longrightarrow>
            fst (w1_ds2432_copy_scratchpad b address es mac) = Inl EACCES) \<and>
         (rx b (nrx b) = 0xFF \<longrightarrow>
            fst (w1_ds2432_copy_scratchpad b address es mac) = Inl EPERM) \<and>
         (rx b (nrx b) = 0xAA \<or> rx b (nrx b) = 0x55 \<longrightarrow>
            fst (w1_ds2432_copy_scratchpad b address es mac) = Inr ()) \<and>
         (rx b (nrx b) \<notin> {0x00, 0xFF, 0xAA, 0x55} \<longrightarrow>
            fst (w1_ds2432_copy_scratchpad b address es mac) = Inl EIO) \<and>
         trace (snd (w1_ds2432_copy_scratchpad b address es mac)) =
           trace b @ [ResetSelect,
                      WriteBlock [DS2432_COPY_SCRATCHPAD, ucast (address AND 0xff),
                                  ucast (drop_bit 8 address AND 0xff), es],
                      Msleep 2, WriteBlock (mac_wire_bytes mac), Msleep 10, Read8] \<and>
         distinct [errno_ret EACCES, errno_ret EPERM, errno_ret EIO, 0]"
  using assms
  by (simp add: copy_scratchpad_result copy_scratchpad_trace errno_ret_def)

theorem copy_scratchpad_classifies_disposition_witness:
  "fst (w1_ds2432_copy_scratchpad (bus_up (\<lambda>k. 0x00)) 0x0008 0x07 ex_mac) = Inl EACCES \<and>
   fst (w1_ds2432_copy_scratchpad (bus_up (\<lambda>k. 0xFF)) 0x0008 0x07 ex_mac) = Inl EPERM \<and>
   fst (w1_ds2432_copy_scratchpad (bus_up (\<lambda>k. 0xAA)) 0x0008 0x07 ex_mac) = Inr () \<and>
   fst (w1_ds2432_copy_scratchpad (bus_up (\<lambda>k. 0x55)) 0x0008 0x07 ex_mac) = Inr () \<and>
   fst (w1_ds2432_copy_scratchpad (bus_up (\<lambda>k. 0x01)) 0x0008 0x07 ex_mac) = Inl EIO"
  using copy_scratchpad_classifies_disposition [of "bus_up (\<lambda>k. 0x00)" "0x0008" "0x07" ex_mac]
    copy_scratchpad_classifies_disposition [of "bus_up (\<lambda>k. 0xFF)" "0x0008" "0x07" ex_mac]
    copy_scratchpad_classifies_disposition [of "bus_up (\<lambda>k. 0xAA)" "0x0008" "0x07" ex_mac]
    copy_scratchpad_classifies_disposition [of "bus_up (\<lambda>k. 0x55)" "0x0008" "0x07" ex_mac]
    copy_scratchpad_classifies_disposition [of "bus_up (\<lambda>k. 0x01)" "0x0008" "0x07" ex_mac]
  by (simp add: bus_up_def)

text \<open>
  Claim C6. The MAC goes to the wire as 20 bytes, in one block between the two sleeps:
  byte \<open>4 * k + j\<close> is byte \<open>j\<close>, least significant first, of the \<open>k\<close>-th word
  of the sequence e, d, c, b, a.
\<close>

theorem mac_wire_format:
  assumes "\<not> select_fails b (nselect b)"
  shows "\<exists>wire. trace (snd (w1_ds2432_copy_scratchpad b address es mac)) =
           trace b @ [ResetSelect,
                      WriteBlock [DS2432_COPY_SCRATCHPAD, ucast (address AND 0xff),
                                  ucast (drop_bit 8 address AND 0xff), es],
                      Msleep 2, WriteBlock wire, Msleep 10, Read8] \<and>
           length wire = 20 \<and>
           (\<forall>k < 5. \<forall>j < 4.
              wire ! (4 * k + j) =
              ucast (drop_bit (8 * j)
                ([sha1_e mac, sha1_d mac, sha1_c mac, sha1_b mac, sha1_a mac] ! k)))"
  using assms
  by (intro exI [of _ "mac_wire_bytes mac"])
     (simp add: copy_scratchpad_trace length_mac_wire_bytes mac_wire_bytes_nth)

theorem mac_wire_format_witness:
  "\<exists>wire.
     trace (snd (w1_ds2432_copy_scratchpad (bus_up (\<lambda>k. 0xAA)) 0x0008 0x07 ex_mac)) =
       [ResetSelect, WriteBlock [0x55, 0x08, 0x00, 0x07], Msleep 2, WriteBlock wire,
        Msleep 10, Read8] \<and>
     length wire = 20 \<and> wire ! 0 = 0x44 \<and> wire ! 1 = 0x43 \<and> wire ! 5 = 0x33 \<and>
     wire ! 10 = 0x22 \<and> wire ! 15 = 0x11 \<and> wire ! 19 = 0x01"
proof -
  obtain wire where w:
    "trace (snd (w1_ds2432_copy_scratchpad (bus_up (\<lambda>k. 0xAA)) 0x0008 0x07 ex_mac)) =
       [ResetSelect, WriteBlock [0x55, 0x08, 0x00, 0x07], Msleep 2, WriteBlock wire,
        Msleep 10, Read8]"
    "length wire = 20"
    "\<forall>k < 5. \<forall>j < 4. wire ! (4 * k + j) =
        ucast (drop_bit (8 * j)
          ([sha1_e ex_mac, sha1_d ex_mac, sha1_c ex_mac, sha1_b ex_mac, sha1_a ex_mac] ! k))"
    using mac_wire_format [of "bus_up (\<lambda>k. 0xAA)" "0x0008" "0x07" ex_mac]
    by (auto simp: bus_up_def DS2432_COPY_SCRATCHPAD_def)
  note nth = w(3) [rule_format]
  have "wire ! 0 = 0x44" "wire ! 1 = 0x43" "wire ! 5 = 0x33"
    "wire ! 10 = 0x22" "wire ! 15 = 0x11" "wire ! 19 = 0x01"
    using nth [of 0 0] nth [of 0 1] nth [of 1 1] nth [of 2 2] nth [of 3 3] nth [of 4 3]
    by (simp_all add: ex_mac_def drop_bit_eq_div)
  then show ?thesis
    using w(1,2) by (intro exI [of _ wire]) simp
qed

section \<open>Device commands: results and bus traffic\<close>

lemma ucast_u16_eq_0x80: "(ucast (a :: u16) :: c_int) = 0x80 \<longleftrightarrow> a = 0x80"
proof
  assume "(ucast a :: c_int) = 0x80"
  then have "(ucast (ucast a :: c_int) :: u16) = ucast (0x80 :: c_int)" by simp
  then show "a = 0x80" by (simp add: ucast_up_ucast_id is_up)
qed simp

lemma es_partial_bit: "drop_bit 5 (es :: u8) AND 1 \<noteq> 0 \<longleftrightarrow> bit es 5"
  by (simp add: and_one_eq bit_iff_odd_drop_bit mod_2_eq_odd)

lemma load_first_secret_result:
  "fst (w1_ds2432_load_first_secret b address es) =
     (if select_fails b (nselect b) then Inl EIO
      else if rx b (nrx b) = 0xAA \<or> rx b (nrx b) = 0x55 then Inr ()
      else Inl EIO)"
  by (simp add: w1_ds2432_load_first_secret_def bus_defs Let_def)

lemma load_first_secret_trace:
  "trace (snd (w1_ds2432_load_first_secret b address es)) =
     trace b @
     (if select_fails b (nselect b) then [ResetSelect]
      else [ResetSelect,
            WriteBlock [DS2432_LOAD_FIRST_SECRET, ucast (address AND 0xff),
                        ucast (drop_bit 8 address), es],
            Msleep 10, Read8])"
  by (simp add: w1_ds2432_load_first_secret_def bus_defs Let_def)

lemma write_scratchpad_trace:
  "trace (snd (w1_ds2432_write_scratchpad crc b address data)) =
     trace b @
     (if select_fails b (nselect b) then [ResetSelect]
      else [ResetSelect,
            WriteBlock [DS2432_WRITE_SCRATCHPAD, ucast (address AND 0xff),
                        ucast (signed_drop_bit 8 address),
                        data ! 0, data ! 1, data ! 2, data ! 3,
                        data ! 4, data ! 5, data ! 6, data ! 7],
            ReadBlock 2])"
  by (simp add: w1_ds2432_write_scratchpad_def bus_defs Let_def split: option.splits)

lemma read_memory_trace:
  "trace (snd (w1_ds2432_read_memory b address count)) =
     trace b @
     (if select_fails b (nselect b) then [ResetSelect]
      else [ResetSelect,
            WriteBlock [DS2432_READ_MEMORY, ucast (address AND 0xff),
                        ucast (signed_drop_bit 8 address)],
            ReadBlock (nat (sint (ucast count :: c_int)))])"
  by (simp add: w1_ds2432_read_memory_def bus_defs Let_def)

lemma write_scratchpad_ok_selected:
  "w1_ds2432_write_scratchpad crc b address data = (Inr (), b') \<Longrightarrow>
   \<not> select_fails b (nselect b)"
  by (auto simp: w1_ds2432_write_scratchpad_def bus_defs Let_def split: if_splits)

lemma read_memory_ok_selected:
  "w1_ds2432_read_memory b address count = (Inr r, b') \<Longrightarrow> \<not> select_fails b (nselect b)"
  by (auto simp: w1_ds2432_read_memory_def bus_defs Let_def split: if_splits)

lemma secret_addr_bytes:
  "(ucast (W1_DS2432_SECRET_ADDR AND 0xff) :: u8) = 0x80"
  "(ucast (signed_drop_bit 8 W1_DS2432_SECRET_ADDR) :: u8) = 0x00"
  by (simp_all add: W1_DS2432_SECRET_ADDR_def)

lemma map_upt_8: "map f [0..<8] = [f 0, f 1, f 2, f 3, f 4, f 5, f 6, f 7]"
  by (simp add: numeral_eq_Suc)

section \<open>Installing the secret\<close>

text \<open>
  Claim C7. After selecting the device, \<open>w1_ds2432_write_secret\<close> stages the secret
  with write-scratchpad at address \<open>0x0080\<close> and reads the scratchpad back. When both
  succeed, it fails with \<open>-EIO\<close> unless the address read back is \<open>0x0080\<close> and bit 5
  of ES is clear; otherwise its outcome is that of load-first-secret, which sends the
  command with that address and ES, waits 10 ms, reads one status byte, and succeeds if
  and only if the device is selected and the byte is \<open>0xAA\<close> or \<open>0x55\<close>; any other
  byte is \<open>-EIO\<close>.
\<close>

theorem write_secret_sequence:
  assumes sel: "\<not> select_fails b (nselect b)"
      and ws: "w1_ds2432_write_scratchpad crc (snd (w1_reset_select_slave b))
                 W1_DS2432_SECRET_ADDR secret = (Inr (), b1)"
      and rs: "w1_ds2432_read_scratchpad crc b1 = (Inr (address, es, data), b2)"
  shows "trace b1 =
           trace b @ [ResetSelect, ResetSelect,
                      WriteBlock [DS2432_WRITE_SCRATCHPAD, 0x80, 0x00,
                                  secret ! 0, secret ! 1, secret ! 2, secret ! 3,
                                  secret ! 4, secret ! 5, secret ! 6, secret ! 7],
                      ReadBlock 2] \<and>
         (address \<noteq> 0x80 \<or> bit es 5 \<longrightarrow>
            w1_ds2432_write_secret crc b secret = (Inl EIO, b2)) \<and>
         (address = 0x80 \<and> \<not> bit es 5 \<longrightarrow>
            fst (w1_ds2432_write_secret crc b secret) =
              fst (w1_ds2432_load_first_secret b2 0x80 es)) \<and>
         (fst (w1_ds2432_load_first_secret b2 0x80 es) = Inr () \<longleftrightarrow>
            \<not> select_fails b2 (nselect b2) \<and> rx b2 (nrx b2) \<in> {0xAA, 0x55}) \<and>
         (fst (w1_ds2432_load_first_secret b2 0x80 es) \<noteq> Inr () \<longrightarrow>
            fst (w1_ds2432_load_first_secret b2 0x80 es) = Inl EIO) \<and>
         (\<not> select_fails b2 (nselect b2) \<longrightarrow>
            trace (snd (w1_ds2432_load_first_secret b2 0x80 es)) =
              trace b2 @ [ResetSelect, WriteBlock [DS2432_LOAD_FIRST_SECRET, 0x80, 0x00, es],
                          Msleep 10, Read8])"
proof -
  let ?b0 = "snd (w1_reset_select_slave b)"
  have sel0: "\<not> select_fails ?b0 (nselect ?b0)"
    using ws by (rule write_scratchpad_ok_selected)
  have "trace b1 = trace (snd (w1_ds2432_write_scratchpad crc ?b0 W1_DS2432_SECRET_ADDR secret))"
    by (simp only: ws snd_conv)
  also have "\<dots> = trace ?b0 @
      [ResetSelect,
       WriteBlock [DS2432_WRITE_SCRATCHPAD, 0x80, 0x00,
                   secret ! 0, secret ! 1, secret ! 2, secret ! 3,
                   secret ! 4, secret ! 5, secret ! 6, secret ! 7],
       ReadBlock 2]"
    using sel0 by (simp only: write_scratchpad_trace secret_addr_bytes if_False)
  finally have c1: "trace b1 =
           trace b @ [ResetSelect, ResetSelect,
                      WriteBlock [DS2432_WRITE_SCRATCHPAD, 0x80, 0x00,
                                  secret ! 0, secret ! 1, secret ! 2, secret ! 3,
                                  secret ! 4, secret ! 5, secret ! 6, secret ! 7],
                      ReadBlock 2]"
    by (simp add: w1_reset_select_slave_def)
  have unfold: "w1_ds2432_write_secret crc b secret =
      (if ucast address \<noteq> W1_DS2432_SECRET_ADDR then (Inl EIO, b2)
       else if drop_bit 5 es AND 1 \<noteq> 0 then (Inl EIO, b2)
       else (case w1_ds2432_load_first_secret b2 address es of
               (Inl error, b) \<Rightarrow> (Inl error, b)
             | (Inr _, b) \<Rightarrow> (Inr (), w1_reset_bus b)))"
    using sel ws rs
    by (simp add: w1_ds2432_write_secret_def Let_def w1_reset_select_slave_def)
  have addr: "ucast address \<noteq> W1_DS2432_SECRET_ADDR \<longleftrightarrow> address \<noteq> 0x80"
    by (simp add: W1_DS2432_SECRET_ADDR_def ucast_u16_eq_0x80)
  have unfold': "w1_ds2432_write_secret crc b secret =
      (if address \<noteq> 0x80 then (Inl EIO, b2)
       else if bit es 5 then (Inl EIO, b2)
       else (case w1_ds2432_load_first_secret b2 address es of
               (Inl error, b) \<Rightarrow> (Inl error, b)
             | (Inr _, b) \<Rightarrow> (Inr (), w1_reset_bus b)))"
    using unfold by (simp only: addr es_partial_bit)
  have c2: "address \<noteq> 0x80 \<or> bit es 5 \<longrightarrow>
            w1_ds2432_write_secret crc b secret = (Inl EIO, b2)"
    by (auto simp: unfold')
  have c3: "address = 0x80 \<and> \<not> bit es 5 \<longrightarrow>
            fst (w1_ds2432_write_secret crc b secret) =
              fst (w1_ds2432_load_first_secret b2 0x80 es)"
    by (auto simp: unfold' split: prod.splits sum.splits)
  have c4: "fst (w1_ds2432_load_first_secret b2 0x80 es) = Inr () \<longleftrightarrow>
            \<not> select_fails b2 (nselect b2) \<and> rx b2 (nrx b2) \<in> {0xAA, 0x55}"
    by (simp add: load_first_secret_result)
  have c5: "fst (w1_ds2432_load_first_secret b2 0x80 es) \<noteq> Inr () \<longrightarrow>
            fst (w1_ds2432_load_first_secret b2 0x80 es) = Inl EIO"
    by (simp add: load_first_secret_result)
  have c6: "\<not> select_fails b2 (nselect b2) \<longrightarrow>
            trace (snd (w1_ds2432_load_first_secret b2 0x80 es)) =
              trace b2 @ [ResetSelect, WriteBlock [DS2432_LOAD_FIRST_SECRET, 0x80, 0x00, es],
                          Msleep 10, Read8]"
    by (simp add: load_first_secret_trace)
  from c1 c2 c3 c4 c5 c6 show ?thesis by blast
qed

theorem write_secret_sequence_witness:
  "fst (w1_ds2432_write_secret None (bus_up (install_resp 0xAA)) ex_secret) = Inr () \<and>
   fst (w1_ds2432_write_secret None (bus_up (install_resp 0x55)) ex_secret) = Inr () \<and>
   fst (w1_ds2432_write_secret None (bus_up (install_resp 0x00)) ex_secret) = Inl EIO"
proof -
  have "fst (w1_ds2432_write_secret None (bus_up (install_resp s)) ex_secret) =
          (if s = 0xAA \<or> s = 0x55 then Inr () else Inl EIO)" for s
  proof -
    let ?b = "bus_up (install_resp s)"
    let ?ws = "w1_ds2432_write_scratchpad None (snd (w1_reset_select_slave ?b))
                 W1_DS2432_SECRET_ADDR ex_secret"
    let ?rs = "w1_ds2432_read_scratchpad None (snd ?ws)"
    have sel: "\<not> select_fails ?b (nselect ?b)"
      by (simp add: bus_up_def)
    have ws: "?ws = (Inr (), snd ?ws)"
      by (simp add: w1_ds2432_write_scratchpad_def bus_defs bus_up_def Let_def)
    have rs: "?rs = (Inr (0x80, 0x00, [0, 0, 0, 0, 0, 0, 0, 0]), snd ?rs)"
      by (simp add: w1_ds2432_write_scratchpad_def w1_ds2432_read_scratchpad_def bus_defs
            bus_up_def Let_def install_resp_def map_upt_8 prod_eq_iff)
    have env: "\<not> select_fails (snd ?rs) (nselect (snd ?rs))"
      "rx (snd ?rs) (nrx (snd ?rs)) = s"
      by (simp_all add: w1_ds2432_write_scratchpad_def w1_ds2432_read_scratchpad_def bus_defs
            bus_up_def Let_def install_resp_def)
    show ?thesis
      using write_secret_sequence [OF sel ws rs] env
      by (auto simp: bit_numeral_iff)
  qed
  then show ?thesis by simp
qed

section \<open>What the MAC depends on\<close>

lemma take_eq_nth:
  assumes "take n xs = take n ys" and "i < n"
  shows "xs ! i = ys ! i"
proof -
  have "xs ! i = take n xs ! i" using assms(2) by simp
  also have "\<dots> = take n ys ! i" by (simp only: assms(1))
  also have "\<dots> = ys ! i" using assms(2) by simp
  finally show ?thesis .
qed

lemma auth_message_cong:
  assumes "take 8 secret = take 8 secret'"
      and "take 28 data_memory_page = take 28 data_memory_page'"
      and "take 8 scratchpad = take 8 scratchpad'"
      and "take 7 serial_number = take 7 serial_number'"
      and "drop_bit 5 (memory_page AND 0xf0) = drop_bit 5 (memory_page' AND 0xf0)"
  shows "auth_message secret scratchpad memory_page data_memory_page serial_number =
         auth_message secret' scratchpad' memory_page' data_memory_page' serial_number'"
proof (rule nth_equalityI)
  show "length (auth_message secret scratchpad memory_page data_memory_page serial_number) =
        length (auth_message secret' scratchpad' memory_page' data_memory_page' serial_number')"
    by (simp only: length_auth_message)
next
  fix i
  assume "i < length (auth_message secret scratchpad memory_page data_memory_page serial_number)"
  then have i: "i < 64" by (simp only: length_auth_message)
  note s = take_eq_nth [OF assms(1)] and p = take_eq_nth [OF assms(2)]
    and sp = take_eq_nth [OF assms(3)] and sn = take_eq_nth [OF assms(4)]
  show "auth_message secret scratchpad memory_page data_memory_page serial_number ! i =
        auth_message secret' scratchpad' memory_page' data_memory_page' serial_number' ! i"
    using i assms(5) by (simp add: auth_message_nth s p sp sn)
qed

lemma generate_mac_cong:
  assumes "take 8 secret = take 8 secret'"
      and "take 28 data_memory_page = take 28 data_memory_page'"
      and "take 8 scratchpad = take 8 scratchpad'"
      and "take 7 serial_number = take 7 serial_number'"
      and "drop_bit 5 (memory_page AND 0xf0) = drop_bit 5 (memory_page' AND 0xf0)"
  shows "generate_mac secret scratchpad memory_page data_memory_page serial_number =
         generate_mac secret' scratchpad' memory_page' data_memory_page' serial_number'"
  unfolding generate_mac_def by (simp only: auth_message_cong [OF assms])




section \<open>Writing one block\<close>

lemma memcmp_differs_8:
  "memcmp_differs p q 8 \<longleftrightarrow> (\<exists>k<8. p ! k \<noteq> q ! k)"
  by (auto simp: memcmp_differs_def list_ex_iff)

lemma read_memory_length:
  assumes "w1_ds2432_read_memory b address 32 = (Inr memory, b')"
  shows "length memory = 32"
  using assms
  by (auto simp: w1_ds2432_read_memory_def bus_defs Let_def split: if_splits)

text \<open>
  Claim C5. \<open>eeprom_write_block\<close> first reads 32 bytes from the page base
  \<open>(address / 32) * 32\<close>. When that read, the write of the scratchpad and its
  read-back succeed, the block fails with \<open>-EIO\<close>, with nothing more sent to the
  device, unless the address read back equals the requested address, bit 5 of ES is
  clear and the eight bytes read back equal the data; when all three checks pass, the
  outcome is that of copy-scratchpad with the MAC computed from the first 28 bytes of the
  page.
\<close>

theorem eeprom_write_block_sequence:
  assumes rm: "w1_ds2432_read_memory b ((ucast address div 32) * 32) 32 =
                 (Inr data_memory_page, b1)"
      and ws: "w1_ds2432_write_scratchpad crc b1 (ucast address) data = (Inr (), b2)"
      and rs: "w1_ds2432_read_scratchpad crc b2 = (Inr (sp_address, es, scratchpad), b3)"
  shows "(let page_base = (ucast address div 32) * 32 :: c_int
          in trace b1 =
               trace b @ [ResetSelect,
                          WriteBlock [DS2432_READ_MEMORY, ucast (page_base AND 0xff),
                                      ucast (signed_drop_bit 8 page_base)],
                          ReadBlock 32]) \<and>
         length data_memory_page = 32 \<and>
         (sp_address \<noteq> address \<or> bit es 5 \<or> (\<exists>k<8. scratchpad ! k \<noteq> data ! k) \<longrightarrow>
            eeprom_write_block crc b3_data b address data = (Inl EIO, b3)) \<and>
         (sp_address = address \<and> \<not> bit es 5 \<and> (\<forall>k<8. scratchpad ! k = data ! k) \<longrightarrow>
            eeprom_write_block crc b3_data b address data =
              w1_ds2432_copy_scratchpad b3 address es
                (generate_mac (b3_secret b3_data) scratchpad address
                   (take 28 data_memory_page) (b3_registration_number b3_data)))"
proof -
  have sel: "\<not> select_fails b (nselect b)"
    using rm by (rule read_memory_ok_selected)
  have "trace b1 =
          trace (snd (w1_ds2432_read_memory b ((ucast address div 32) * 32) 32))"
    by (simp only: rm snd_conv)
  then have c1: "let page_base = (ucast address div 32) * 32 :: c_int
          in trace b1 =
               trace b @ [ResetSelect,
                          WriteBlock [DS2432_READ_MEMORY, ucast (page_base AND 0xff),
                                      ucast (signed_drop_bit 8 page_base)],
                          ReadBlock 32]"
    using sel by (simp add: read_memory_trace Let_def)
  have c2: "length data_memory_page = 32"
    using rm by (rule read_memory_length)
  have mac: "generate_mac (b3_secret b3_data) scratchpad address data_memory_page
               (b3_registration_number b3_data) =
             generate_mac (b3_secret b3_data) scratchpad address (take 28 data_memory_page)
               (b3_registration_number b3_data)"
    by (rule generate_mac_cong) simp_all
  define mismatch where "mismatch \<longleftrightarrow> (\<exists>k<8. scratchpad ! k \<noteq> data ! k)"
  have m8: "memcmp_differs scratchpad data 8 = mismatch"
    by (simp only: memcmp_differs_8 mismatch_def)
  have nm: "(\<not> mismatch) = (\<forall>k<8. scratchpad ! k = data ! k)"
    by (auto simp: mismatch_def)
  have unfold: "eeprom_write_block crc b3_data b address data =
      (if sp_address \<noteq> address then (Inl EIO, b3)
       else if bit es 5 then (Inl EIO, b3)
       else if mismatch then (Inl EIO, b3)
       else w1_ds2432_copy_scratchpad b3 sp_address es
              (generate_mac (b3_secret b3_data) scratchpad address
                 (take 28 data_memory_page) (b3_registration_number b3_data)))"
    by (simp only: eeprom_write_block_def rm ws rs Let_def es_partial_bit m8 mac
          prod.case sum.case)
  have "sp_address \<noteq> address \<or> bit es 5 \<or> mismatch \<longrightarrow>
            eeprom_write_block crc b3_data b address data = (Inl EIO, b3)"
    by (auto simp: unfold)
  then have c3: "sp_address \<noteq> address \<or> bit es 5 \<or> (\<exists>k<8. scratchpad ! k \<noteq> data ! k) \<longrightarrow>
            eeprom_write_block crc b3_data b address data = (Inl EIO, b3)"
    by (simp only: mismatch_def)
  have "sp_address = address \<and> \<not> bit es 5 \<and> \<not> mismatch \<longrightarrow>
            eeprom_write_block crc b3_data b address data =
              w1_ds2432_copy_scratchpad b3 address es
                (generate_mac (b3_secret b3_data) scratchpad address
                   (take 28 data_memory_page) (b3_registration_number b3_data))"
    by (auto simp: unfold)
  then have c4: "sp_address = address \<and> \<not> bit es 5 \<and> (\<forall>k<8. scratchpad ! k = data ! k) \<longrightarrow>
            eeprom_write_block crc b3_data b address data =
              w1_ds2432_copy_scratchpad b3 address es
                (generate_mac (b3_secret b3_data) scratchpad address
                   (take 28 data_memory_page) (b3_registration_number b3_data))"
    by (simp only: nm)
  from c1 c2 c3 c4 show ?thesis by blast
qed

theorem eeprom_write_block_sequence_witness:
  "fst (eeprom_write_block None ex_device (bus_up (eeprom_resp 1)) 0x0000
         [0, 0, 0, 0, 0, 0, 0, 0]) = Inr () \<and>
   fst (eeprom_write_block None ex_device (bus_up (eeprom_resp 1)) 0x0000
         [1, 0, 0, 0, 0, 0, 0, 0]) = Inl EIO"
proof -
  let ?b = "bus_up (eeprom_resp 1)"
  have res: "fst (eeprom_write_block None ex_device ?b 0x0000 (d # [0, 0, 0, 0, 0, 0, 0])) =
          (if d = 0 then Inr () else Inl EIO)" for d
  proof -
    let ?data = "d # [0, 0, 0, 0, 0, 0, 0 :: u8]"
    let ?rm = "w1_ds2432_read_memory ?b ((ucast (0x0000 :: u16) div 32) * 32) 32"
    let ?ws = "w1_ds2432_write_scratchpad None (snd ?rm) (ucast (0x0000 :: u16)) ?data"
    let ?rs = "w1_ds2432_read_scratchpad None (snd ?ws)"
    have rm: "?rm = (Inr (projr (fst ?rm)), snd ?rm)"
      by (simp add: w1_ds2432_read_memory_def bus_defs bus_up_def Let_def)
    have ws: "?ws = (Inr (), snd ?ws)"
      by (simp add: w1_ds2432_read_memory_def w1_ds2432_write_scratchpad_def bus_defs
            bus_up_def Let_def)
    have rs: "?rs = (Inr (0x0000, 0x00, [0, 0, 0, 0, 0, 0, 0, 0]), snd ?rs)"
      by (simp add: w1_ds2432_read_memory_def w1_ds2432_write_scratchpad_def
            w1_ds2432_read_scratchpad_def bus_defs bus_up_def Let_def map_upt_8
            eeprom_resp_def prod_eq_iff)
    have env: "\<not> select_fails (snd ?rs) (nselect (snd ?rs))"
      "rx (snd ?rs) (nrx (snd ?rs)) = 0xAA"
      by (simp_all add: w1_ds2432_read_memory_def w1_ds2432_write_scratchpad_def
            w1_ds2432_read_scratchpad_def bus_defs bus_up_def Let_def eeprom_resp_def)
    note seq = eeprom_write_block_sequence [OF rm ws rs, of ex_device]
    show ?thesis
    proof (cases "d = 0")
      case True
      then have "\<forall>k<8. [0, 0, 0, 0, 0, 0, 0, 0 :: u8] ! k = ?data ! k"
        by simp
      with seq have "eeprom_write_block None ex_device ?b 0x0000 ?data =
          w1_ds2432_copy_scratchpad (snd ?rs) 0x0000 0x00
            (generate_mac (b3_secret ex_device) [0, 0, 0, 0, 0, 0, 0, 0] 0x0000
               (take 28 (projr (fst ?rm))) (b3_registration_number ex_device))"
        by simp
      with True env show ?thesis
        by (simp add: copy_scratchpad_result)
    next
      case False
      then have "[0, 0, 0, 0, 0, 0, 0, 0 :: u8] ! 0 \<noteq> ?data ! 0"
        by simp
      then have "\<exists>k<8. [0, 0, 0, 0, 0, 0, 0, 0 :: u8] ! k \<noteq> ?data ! k"
        by (intro exI [of _ 0]) simp
      with seq have "eeprom_write_block None ex_device ?b 0x0000 ?data = (Inl EIO, snd ?rs)"
        by blast
      with False show ?thesis by simp
    qed
  qed
  show ?thesis
    using res [of 0] res [of 1] by simp
qed

section \<open>Writing a whole buffer\<close>

lemma read_memory_selected:
  assumes "\<not> select_fails b (nselect b)"
  shows "w1_ds2432_read_memory b address 32 =
           (Inr (map (\<lambda>k. rx b (nrx b + k)) [0..<32]),
            b\<lparr>nselect := Suc (nselect b), nrx := nrx b + 32,
              trace := trace b @ [ResetSelect,
                WriteBlock [DS2432_READ_MEMORY, ucast (address AND 0xff),
                            ucast (signed_drop_bit 8 address)],
                ReadBlock 32]\<rparr>)"
  using assms by (simp add: w1_ds2432_read_memory_def bus_defs Let_def)

lemma write_scratchpad_selected:
  assumes "\<not> select_fails b (nselect b)"
  shows "w1_ds2432_write_scratchpad None b address data =
           (Inr (),
            b\<lparr>nselect := Suc (nselect b), nrx := nrx b + 2,
              trace := trace b @ [ResetSelect,
                WriteBlock [DS2432_WRITE_SCRATCHPAD, ucast (address AND 0xff),
                            ucast (signed_drop_bit 8 address),
                            data ! 0, data ! 1, data ! 2, data ! 3,
                            data ! 4, data ! 5, data ! 6, data ! 7],
                ReadBlock 2]\<rparr>)"
  using assms by (simp add: w1_ds2432_write_scratchpad_def bus_defs Let_def)

lemma read_scratchpad_selected:
  assumes "\<not> select_fails b (nselect b)"
  shows "w1_ds2432_read_scratchpad None b =
           (Inr (ucast (push_bit 8 (ucast (rx b (nrx b + 1)) :: c_int)) OR ucast (rx b (nrx b)),
                 rx b (nrx b + 2),
                 map (\<lambda>k. rx b (nrx b + 3 + k)) [0..<8]),
            b\<lparr>nselect := Suc (nselect b), nrx := nrx b + 13,
              trace := trace b @ [ResetSelect, WriteBlock [DS2432_READ_SCRATCHPAD],
                ReadBlock 3, ReadBlock 8, ReadBlock 2]\<rparr>)"
  using assms
  by (simp add: w1_ds2432_read_scratchpad_def bus_defs Let_def numeral_3_eq_3)

lemma copy_scratchpad_selected:
  assumes "\<not> select_fails b (nselect b)"
  shows "w1_ds2432_copy_scratchpad b address es mac =
           (if rx b (nrx b) = 0x00 then Inl EACCES
            else if rx b (nrx b) = 0xff then Inl EPERM
            else if rx b (nrx b) = 0xAA \<or> rx b (nrx b) = 0x55 then Inr ()
            else Inl EIO,
            b\<lparr>nselect := Suc (nselect b), nrx := Suc (nrx b),
              trace := trace b @ [ResetSelect,
                WriteBlock [DS2432_COPY_SCRATCHPAD, ucast (address AND 0xff),
                            ucast (drop_bit 8 address AND 0xff), es],
                Msleep 2, WriteBlock (mac_wire_bytes mac), Msleep 10, Read8]\<rparr>)"
  using assms by (simp add: w1_ds2432_copy_scratchpad_def bus_defs Let_def)

lemma eeprom_write_block_no_crc:
  assumes s0: "\<not> select_fails b (nselect b)"
      and s1: "\<not> select_fails b (Suc (nselect b))"
      and s2: "\<not> select_fails b (Suc (Suc (nselect b)))"
      and s3: "\<not> select_fails b (Suc (Suc (Suc (nselect b))))"
      and addr: "ucast (push_bit 8 (ucast (rx b (nrx b + 35)) :: c_int)) OR
                 ucast (rx b (nrx b + 34)) = address"
      and es: "\<not> bit (rx b (nrx b + 36)) 5"
      and echo: "\<forall>k<8. rx b (nrx b + 37 + k) = data ! k"
  shows "fst (eeprom_write_block None b3_data b address data) =
           (if rx b (nrx b + 47) = 0x00 then Inl EACCES
            else if rx b (nrx b + 47) = 0xff then Inl EPERM
            else if rx b (nrx b + 47) = 0xAA \<or> rx b (nrx b + 47) = 0x55 then Inr ()
            else Inl EIO)"
    and "select_fails (snd (eeprom_write_block None b3_data b address data)) = select_fails b"
    and "rx (snd (eeprom_write_block None b3_data b address data)) = rx b"
    and "nselect (snd (eeprom_write_block None b3_data b address data)) = nselect b + 4"
    and "nrx (snd (eeprom_write_block None b3_data b address data)) = nrx b + 48"
proof -
  let ?page = "(ucast address div 32) * 32 :: c_int"
  obtain page b1 where rm: "w1_ds2432_read_memory b ?page 32 = (Inr page, b1)"
    and b1: "select_fails b1 = select_fails b" "rx b1 = rx b"
      "nselect b1 = Suc (nselect b)" "nrx b1 = nrx b + 32"
    using read_memory_selected [OF s0, of ?page] by simp
  have "\<not> select_fails b1 (nselect b1)" using s1 b1 by simp
  from write_scratchpad_selected [OF this, of "ucast address" data]
  obtain b2 where ws: "w1_ds2432_write_scratchpad None b1 (ucast address) data = (Inr (), b2)"
    and b2: "select_fails b2 = select_fails b" "rx b2 = rx b"
      "nselect b2 = Suc (Suc (nselect b))" "nrx b2 = nrx b + 34"
    using b1 by simp
  have "\<not> select_fails b2 (nselect b2)" using s2 b2 by simp
  note rs0 = read_scratchpad_selected [OF this]
  have ar: "nrx b + 34 + 1 = nrx b + 35" "nrx b + 34 + 2 = nrx b + 36"
    "\<And>k. nrx b + 34 + 3 + k = nrx b + 37 + k" "nrx b + 34 + 13 = nrx b + 47"
    by simp_all
  define b3 where "b3 = b2\<lparr>nselect := Suc (nselect b2), nrx := nrx b2 + 13,
              trace := trace b2 @ [ResetSelect, WriteBlock [DS2432_READ_SCRATCHPAD],
                ReadBlock 3, ReadBlock 8, ReadBlock 2]\<rparr>"
  have rs: "w1_ds2432_read_scratchpad None b2 =
        (Inr (address, rx b (nrx b + 36), map (\<lambda>k. rx b (nrx b + 37 + k)) [0..<8]), b3)"
    using rs0 unfolding b3_def [symmetric] by (simp only: b2 ar addr)
  have b3: "select_fails b3 = select_fails b" "rx b3 = rx b"
      "nselect b3 = Suc (Suc (Suc (nselect b)))" "nrx b3 = nrx b + 47"
    using b2 by (simp_all add: b3_def)
  have sel3: "\<not> select_fails b3 (nselect b3)" using s3 b3 by simp
  have same: "\<not> memcmp_differs (map (\<lambda>k. rx b (nrx b + 37 + k)) [0..<8]) data 8"
    using echo by (simp add: memcmp_differs_8)
  have eq: "eeprom_write_block None b3_data b address data =
      w1_ds2432_copy_scratchpad b3 address (rx b (nrx b + 36))
        (generate_mac (b3_secret b3_data) (map (\<lambda>k. rx b (nrx b + 37 + k)) [0..<8]) address
           page (b3_registration_number b3_data))"
    using es same
    by (simp add: eeprom_write_block_def rm ws rs Let_def es_partial_bit)
  show "fst (eeprom_write_block None b3_data b address data) =
           (if rx b (nrx b + 47) = 0x00 then Inl EACCES
            else if rx b (nrx b + 47) = 0xff then Inl EPERM
            else if rx b (nrx b + 47) = 0xAA \<or> rx b (nrx b + 47) = 0x55 then Inr ()
            else Inl EIO)"
    unfolding eq copy_scratchpad_selected [OF sel3] using b3 by simp
  show "select_fails (snd (eeprom_write_block None b3_data b address data)) = select_fails b"
    unfolding eq copy_scratchpad_selected [OF sel3] using b3 by simp
  show "rx (snd (eeprom_write_block None b3_data b address data)) = rx b"
    unfolding eq copy_scratchpad_selected [OF sel3] using b3 by simp
  show "nselect (snd (eeprom_write_block None b3_data b address data)) = nselect b + 4"
    unfolding eq copy_scratchpad_selected [OF sel3] using b3 by simp
  show "nrx (snd (eeprom_write_block None b3_data b address data)) = nrx b + 48"
    unfolding eq copy_scratchpad_selected [OF sel3] using b3 by simp
qed

lemma unat_block_address:
  assumes "n \<le> 248"
  shows "unat (of_nat n :: u8) = n"
    and "unat (ucast (of_nat n :: u8) :: size_t) = n"
    and "(ucast (of_nat n :: u8) :: u16) = of_nat n"
proof -
  show u: "unat (of_nat n :: u8) = n"
    using assms by (simp add: unat_of_nat)
  have "unat (ucast (of_nat n :: u8) :: size_t) = take_bit 64 (unat (of_nat n :: u8))"
    by (simp add: unsigned_ucast_eq)
  also have "\<dots> = n"
    unfolding u using assms by (intro take_bit_nat_eq_self) simp
  finally show "unat (ucast (of_nat n :: u8) :: size_t) = n" .
  have "unat (ucast (of_nat n :: u8) :: u16) = take_bit 16 (unat (of_nat n :: u8))"
    by (simp add: unsigned_ucast_eq)
  also have "\<dots> = n"
    unfolding u using assms by (intro take_bit_nat_eq_self) simp
  finally have "unat (ucast (of_nat n :: u8) :: u16) = n" .
  moreover have "unat (of_nat n :: u16) = n"
    using assms by (simp add: unat_of_nat)
  ultimately show "(ucast (of_nat n :: u8) :: u16) = of_nat n"
    by (simp add: word_unat_eq_iff)
qed

lemma eeprom_write_loop_blocks:
  assumes count: "unat count \<le> 248"
  shows "8 * k0 \<le> 248 \<Longrightarrow>
         eeprom_write_loop crc b3_data buf count (of_nat (8 * k0)) b =
           Some (case write_blocks crc b3_data buf
                        (map (\<lambda>k. 8 * k) [k0..<(unat count + 7) div 8]) b of
                   (Inl error, b') \<Rightarrow> (neg_errno error, b')
                 | (Inr u, b') \<Rightarrow> (count, b'))"
proof (induction "(unat count + 7) div 8 - k0" arbitrary: k0 b)
  case 0
  define a where "a = 8 * k0"
  have a_le: "a \<le> 248" using "0.prems" by (simp add: a_def)
  from 0 have ge: "(unat count + 7) div 8 \<le> k0" by simp
  then have "unat count \<le> a" unfolding a_def by linarith
  then have cond: "\<not> ucast (of_nat a :: u8) < count"
    by (simp add: word_less_nat_alt unat_block_address [OF a_le])
  have "eeprom_write_loop crc b3_data buf count (of_nat a) b = Some (count, b)"
    by (subst eeprom_write_loop.simps) (simp only: cond if_False)
  then show ?case
    using ge by (simp add: a_def)
next
  case (Suc m)
  define a where "a = 8 * k0"
  define N where "N = (unat count + 7) div 8"
  have a_le: "a \<le> 248" using Suc.prems by (simp add: a_def)
  from Suc have lt: "k0 < N" by (simp add: N_def)
  then have lt': "a < unat count" unfolding a_def N_def by linarith
  then have cond: "ucast (of_nat a :: u8) < count"
    by (simp add: word_less_nat_alt unat_block_address [OF a_le])
  have next_le: "8 * Suc k0 \<le> 248"
    using lt' count unfolding a_def by presburger
  define nxt where "nxt = (of_nat (8 * Suc k0) :: u8)"
  have next_addr: "(of_nat a :: u8) + 8 = nxt"
    by (simp add: a_def nxt_def)
  have m: "m = (unat count + 7) div 8 - Suc k0"
    using Suc.hyps(2) by simp
  note IH = Suc.hyps(1) [OF m next_le, folded N_def nxt_def]
  have step: "eeprom_write_loop crc b3_data buf count (of_nat a) b =
      (case eeprom_write_block crc b3_data b (of_nat a) (drop a buf) of
         (Inl error, b') \<Rightarrow> Some (neg_errno error, b')
       | (Inr u, b') \<Rightarrow> eeprom_write_loop crc b3_data buf count nxt b')"
    by (subst eeprom_write_loop.simps)
       (simp only: cond if_True unat_block_address [OF a_le] next_addr)
  have upt: "[k0..<N] = k0 # [Suc k0..<N]"
    using lt by (simp add: upt_conv_Cons)
  have blocks: "write_blocks crc b3_data buf (map (\<lambda>k. 8 * k) [k0..<N]) b =
      (case eeprom_write_block crc b3_data b (of_nat a) (drop a buf) of
         (Inl error, b') \<Rightarrow> (Inl error, b')
       | (Inr u, b') \<Rightarrow> write_blocks crc b3_data buf (map (\<lambda>k. 8 * k) [Suc k0..<N]) b')"
    by (simp only: upt list.map write_blocks.simps a_def)
  obtain r b' where res: "eeprom_write_block crc b3_data b (of_nat a) (drop a buf) = (r, b')"
    by (cases "eeprom_write_block crc b3_data b (of_nat a) (drop a buf)")
  have "eeprom_write_loop crc b3_data buf count (of_nat a) b =
           Some (case write_blocks crc b3_data buf (map (\<lambda>k. 8 * k) [k0..<N]) b of
                   (Inl error, b') \<Rightarrow> (neg_errno error, b')
                 | (Inr u, b') \<Rightarrow> (count, b'))"
    unfolding step blocks res by (cases r) (simp_all add: IH)
  then show ?case
    by (simp only: a_def N_def)
qed

lemma eeprom_write_blocks:
  assumes "unat count \<le> 248" and "\<not> select_fails b (nselect b)"
  shows "eeprom_write crc b3_data b buf off count =
           Some (case write_blocks crc b3_data buf
                        (map (\<lambda>k. 8 * k) [0..<(unat count + 7) div 8])
                        (snd (w1_reset_select_slave (mutex_lock b))) of
                   (Inl error, b') \<Rightarrow> (neg_errno error, mutex_unlock b')
                 | (Inr u, b') \<Rightarrow> (count, mutex_unlock b'))"
proof -
  have "eeprom_write_loop crc b3_data buf count 0 b' =
           Some (case write_blocks crc b3_data buf
                        (map (\<lambda>k. 8 * k) [0..<(unat count + 7) div 8]) b' of
                   (Inl error, b') \<Rightarrow> (neg_errno error, b')
                 | (Inr u, b') \<Rightarrow> (count, b'))" for b'
    using eeprom_write_loop_blocks [OF assms(1), of 0 crc b3_data buf b'] by simp
  then show ?thesis
    using assms(2)
    by (simp add: eeprom_write_def Let_def bus_defs split: prod.splits sum.splits)
qed

lemma neg_errno_values:
  "sint (neg_errno e) = errno_ret e" "errno_ret e < 0"
  by (cases e; simp add: neg_errno_def errno_ret_def)+

lemma eeprom_resp_block:
  "k < 48 \<Longrightarrow>
   eeprom_resp rejected (48 * blk + k) =
     (if k = 34 then of_nat (8 * blk)
      else if k = 47 then (if blk = rejected then 0x00 else 0xAA)
      else 0x00)"
  by (simp add: eeprom_resp_def)

lemma two_zero_blocks:
  assumes env: "select_fails b = (\<lambda>k. False)" "rx b = eeprom_resp rejected" "nrx b = 0"
  shows "fst (write_blocks None b3_data (replicate 16 0) [0, 8] b) =
           (if rejected = 0 \<or> rejected = 1 then Inl EACCES else Inr ())"
proof -
  define r0 where "r0 = eeprom_write_block None b3_data b 0 (replicate 16 0)"
  have echo0: "\<forall>k<8. rx b (nrx b + 37 + k) = replicate 16 0 ! k"
    by (simp add: env eeprom_resp_def)
  have addr0: "ucast (push_bit 8 (ucast (rx b (nrx b + 35)) :: c_int)) OR
               ucast (rx b (nrx b + 34)) = (0 :: u16)"
    by (simp add: env eeprom_resp_def)
  have es0: "\<not> bit (rx b (nrx b + 36)) 5"
    by (simp add: env eeprom_resp_def)
  have sel0: "\<not> select_fails b k" for k
    by (simp add: env)
  note blk0 = eeprom_write_block_no_crc [OF sel0 sel0 sel0 sel0 addr0 es0 echo0, of b3_data,
      folded r0_def]
  have f0: "fst r0 = (if rejected = 0 then Inl EACCES else Inr ())"
    using blk0(1) by (simp add: env eeprom_resp_def)
  have env1: "select_fails (snd r0) = (\<lambda>k. False)" "rx (snd r0) = eeprom_resp rejected"
    "nrx (snd r0) = 48"
    using blk0(2,3,5) by (simp_all add: env)
  define r1 where "r1 = eeprom_write_block None b3_data (snd r0) 8 (replicate 8 0)"
  have e85: "eeprom_resp rejected (85 + k) = 0" if "k < 8" for k
  proof -
    have "eeprom_resp rejected (48 * 1 + (37 + k)) = 0"
      using that by (subst eeprom_resp_block) auto
    then show ?thesis by simp
  qed
  have echo1: "\<forall>k<8. rx (snd r0) (nrx (snd r0) + 37 + k) = replicate 8 0 ! k"
    by (simp add: env1 e85)
  have addr1: "ucast (push_bit 8 (ucast (rx (snd r0) (nrx (snd r0) + 35)) :: c_int)) OR
               ucast (rx (snd r0) (nrx (snd r0) + 34)) = (8 :: u16)"
    by (simp add: env1 eeprom_resp_def)
  have es1: "\<not> bit (rx (snd r0) (nrx (snd r0) + 36)) 5"
    by (simp add: env1 eeprom_resp_def)
  have sel1: "\<not> select_fails (snd r0) k" for k
    by (simp add: env1)
  note blk1 = eeprom_write_block_no_crc [OF sel1 sel1 sel1 sel1 addr1 es1 echo1, of b3_data,
      folded r1_def]
  have f1: "fst r1 = (if rejected = 1 then Inl EACCES else Inr ())"
    using blk1(1) by (simp add: env1 eeprom_resp_def)
  have wb: "write_blocks None b3_data (replicate 16 0) [0, 8] b =
      (case r0 of
         (Inl error, b') \<Rightarrow> (Inl error, b')
       | (Inr u, b') \<Rightarrow>
           (case eeprom_write_block None b3_data b' 8 (replicate 8 0) of
              (Inl error, b'') \<Rightarrow> (Inl error, b'')
            | (Inr u, b'') \<Rightarrow> (Inr (), b'')))"
    by (simp add: r0_def split: prod.splits sum.splits)
  show ?thesis
  proof (cases "rejected = 0")
    case True
    with f0 show ?thesis
      unfolding wb by (cases r0) (simp split: sum.splits)
  next
    case False
    with f0 have "fst r0 = Inr ()" by simp
    then have "write_blocks None b3_data (replicate 16 0) [0, 8] b =
        (case r1 of (Inl error, b') \<Rightarrow> (Inl error, b') | (Inr u, b') \<Rightarrow> (Inr (), b'))"
      unfolding wb r1_def by (cases r0) (simp split: sum.splits)
    with f1 False show ?thesis
      by (cases r1) (auto split: sum.splits)
  qed
qed

lemma upt_0_2: "[0..<2] = [0, 1]"
  by (simp add: numeral_2_eq_2)

lemma eeprom_write_two_zero_blocks:
  "map_option fst (eeprom_write None ex_device (bus_up (eeprom_resp rejected))
       (replicate 16 0) 0 16) =
     Some (if rejected = 0 \<or> rejected = 1 then neg_errno EACCES else 16)"
  "fst (eeprom_write_block None ex_device
          (snd (w1_reset_select_slave (mutex_lock (bus_up (eeprom_resp rejected))))) 0
          (replicate 16 0)) = (if rejected = 0 then Inl EACCES else Inr ())"
proof -
  let ?b = "bus_up (eeprom_resp rejected)"
  let ?sel = "snd (w1_reset_select_slave (mutex_lock ?b))"
  have blocks: "map (\<lambda>k. 8 * k) [0..<(unat (16 :: size_t) + 7) div 8] = [0, 8]"
    by (simp add: upt_0_2)
  have env: "select_fails ?sel = (\<lambda>k. False)" "rx ?sel = eeprom_resp rejected"
    "nrx ?sel = 0"
    by (simp_all add: bus_defs bus_up_def)
  have sel: "\<not> select_fails ?b (nselect ?b)"
    by (simp add: bus_up_def)
  have small: "unat (16 :: size_t) \<le> 248"
    by simp
  show "map_option fst (eeprom_write None ex_device ?b (replicate 16 0) 0 16) =
     Some (if rejected = 0 \<or> rejected = 1 then neg_errno EACCES else 16)"
    using two_zero_blocks [OF env, of ex_device]
    unfolding eeprom_write_blocks [OF small sel] blocks
    by (cases "write_blocks None ex_device (replicate 16 0) [0, 8] ?sel")
       (auto split: sum.splits)
  have "fst (eeprom_write_block None ex_device ?sel 0 (replicate 16 0)) =
          (if rx ?sel (nrx ?sel + 47) = 0x00 then Inl EACCES
            else if rx ?sel (nrx ?sel + 47) = 0xff then Inl EPERM
            else if rx ?sel (nrx ?sel + 47) = 0xAA \<or> rx ?sel (nrx ?sel + 47) = 0x55
            then Inr ()
            else Inl EIO)"
    by (rule eeprom_write_block_no_crc(1)) (simp_all add: env eeprom_resp_def)
  then show "fst (eeprom_write_block None ex_device ?sel 0 (replicate 16 0)) =
      (if rejected = 0 then Inl EACCES else Inr ())"
    by (simp add: env eeprom_resp_def)
qed

text \<open>
  Claim C3 (as amended). A whole-buffer write at offset 0 of \<open>count\<close> bytes
  (\<open>count \<le> 248\<close>, so that the 8-bit address cannot wrap), once the device is selected,
  returns, and it is the sequence of \<open>eeprom_write_block\<close> calls at addresses
  0, 8, 16, ... below \<open>count\<close>, each with the buffer bytes from that index on: the
  first failing block aborts the remaining sequence, and the return value is then that
  block's negative error code; when every block succeeds the return value is
  \<open>count\<close>.
\<close>

theorem eeprom_write_decomposes:
  assumes "off = 0" and "unat count \<le> 248" and "\<not> select_fails b (nselect b)"
  shows "eeprom_write crc b3_data b buf off count =
           Some (case write_blocks crc b3_data buf
                        (map (\<lambda>k. 8 * k) [0..<(unat count + 7) div 8])
                        (snd (w1_reset_select_slave (mutex_lock b))) of
                   (Inl error, b') \<Rightarrow> (neg_errno error, mutex_unlock b')
                 | (Inr u, b') \<Rightarrow> (count, mutex_unlock b')) \<and>
         (\<forall>error. sint (neg_errno error) = errno_ret error \<and> errno_ret error < 0)"
  using eeprom_write_blocks [OF assms(2,3)] neg_errno_values by blast

theorem eeprom_write_decomposes_witness:
  "map_option fst (eeprom_write None ex_device (bus_up (eeprom_resp 1))
       (replicate 16 0) 0 16) = Some (- 13) \<and>
   map_option fst (eeprom_write None ex_device (bus_up (eeprom_resp 2))
       (replicate 16 0) 0 16) = Some 16"
proof -
  have blocks: "map (\<lambda>k. 8 * k) [0..<(unat (16 :: size_t) + 7) div 8] = [0, 8]"
    by (simp add: upt_0_2)
  have r: "map_option fst (eeprom_write None ex_device (bus_up (eeprom_resp rejected))
       (replicate 16 0) 0 16) =
     Some (if rejected = 0 \<or> rejected = 1 then neg_errno EACCES else 16)" for rejected
  proof -
    let ?b = "bus_up (eeprom_resp rejected)"
    let ?sel = "snd (w1_reset_select_slave (mutex_lock ?b))"
    have env: "select_fails ?sel = (\<lambda>k. False)" "rx ?sel = eeprom_resp rejected"
      "nrx ?sel = 0"
      by (simp_all add: bus_defs bus_up_def)
    have sel: "\<not> select_fails ?b (nselect ?b)"
      by (simp add: bus_up_def)
    have small: "unat (16 :: size_t) \<le> 248"
      by simp
    show ?thesis
      using two_zero_blocks [OF env, of ex_device]
        eeprom_write_decomposes [OF refl small sel, of None ex_device "replicate 16 0"]
      unfolding blocks
      by (cases "write_blocks None ex_device (replicate 16 0) [0, 8] ?sel")
         (auto split: sum.splits)
  qed
  show ?thesis
    using r [of 1] r [of 2] by (simp add: neg_errno_def errno_ret_def)
qed

text \<open>
  Claim C3 as stated fails on the return value. Sixteen zero bytes are written at offset
  0; the first block is committed and the device rejects the MAC of the second: the
  write returns \<open>-EACCES = -13\<close>, not the 8 bytes committed before the failure.
\<close>

theorem eeprom_write_returns_error_not_partial_count:
  "map_option fst (eeprom_write None ex_device (bus_up (eeprom_resp 1))
       (replicate 16 0) 0 16) = Some (- 13) \<and>
   (- 13 :: size_t) \<noteq> 8 \<and>
   fst (eeprom_write_block None ex_device
          (snd (w1_reset_select_slave (mutex_lock (bus_up (eeprom_resp 1))))) 0
          (replicate 16 0)) = Inr ()"
  using eeprom_write_two_zero_blocks [of 1]
  by (simp add: neg_errno_def errno_ret_def)

section \<open>The secret-sync endpoint\<close>

lemma write_secret_commit_failure:
  "fst (w1_ds2432_write_secret None
         (snd (w1_reset_select_slave (mutex_lock (bus_up (install_resp 0x00))))) ex_secret) =
     Inl EIO"
  "fst (w1_ds2432_write_secret None
         (snd (w1_reset_select_slave (mutex_lock (bus_up (install_resp 0xAA))))) ex_secret) =
     Inr ()"
  by (simp_all add: w1_ds2432_write_secret_def w1_ds2432_write_scratchpad_def
        w1_ds2432_read_scratchpad_def w1_ds2432_load_first_secret_def bus_defs bus_up_def
        install_resp_def Let_def W1_DS2432_SECRET_ADDR_def)

text \<open>
  Claim C9 fails on the code. The device is selected and answers the staging of the
  secret correctly, but the status byte after load-first-secret is \<open>0x00\<close>:
  \<open>w1_ds2432_write_secret\<close> returns \<open>-EIO\<close>, and \<open>secret_sync_write\<close>, called with
  \<open>count = 1\<close>, returns 1, the same value as when the status byte is \<open>0xAA\<close> and the
  installation succeeds.
\<close>

theorem secret_sync_write_discards_failure:
  "fst (w1_ds2432_write_secret None
         (snd (w1_reset_select_slave (mutex_lock (bus_up (install_resp 0x00))))) ex_secret) =
     Inl EIO \<and>
   fst (secret_sync_write None \<lparr>b3_secret = ex_secret, b3_registration_number = ex_serial\<rparr>
         (bus_up (install_resp 0x00)) [0x31] 0 1) = 1 \<and>
   fst (w1_ds2432_write_secret None
         (snd (w1_reset_select_slave (mutex_lock (bus_up (install_resp 0xAA))))) ex_secret) =
     Inr () \<and>
   fst (secret_sync_write None \<lparr>b3_secret = ex_secret, b3_registration_number = ex_serial\<rparr>
         (bus_up (install_resp 0xAA)) [0x31] 0 1) = 1"
  by (simp add: write_secret_commit_failure)
     (simp add: secret_sync_write_def bus_defs bus_up_def Let_def split: prod.splits)

section \<open>The eeprom read endpoint stays inside the data memory\<close>

lemma fix_count_unat:
  assumes "unat off + unat count < 2 ^ 64"
  shows "unat (w1_b3_fix_count off count 128) =
           (if 128 < unat off then 0
            else if 128 < unat off + unat count then 128 - unat off
            else unat count)"
proof -
  have sum: "unat (off + count) = unat off + unat count"
    using assms by (simp add: unat_add_lem [THEN iffD1])
  show ?thesis
    by (simp add: w1_b3_fix_count_def word_less_nat_alt sum unat_sub word_le_nat_alt)
qed

lemma fix_count_cases:
  assumes "unat off + unat count < 2 ^ 64"
  shows "w1_b3_fix_count off count 128 =
           (if 128 < off then 0
            else if 128 < unat off + unat count then 128 - off
            else count)"
proof -
  have sum: "unat (off + count) = unat off + unat count"
    using assms by (simp add: unat_add_lem [THEN iffD1])
  show ?thesis
    by (simp add: w1_b3_fix_count_def word_less_nat_alt sum)
qed

lemma small_offset_bytes:
  fixes off :: size_t
  assumes "off < 128"
  shows "(ucast ((ucast off :: c_int) AND 0xff) :: u8) = ucast off"
    and "(ucast (signed_drop_bit 8 (ucast off :: c_int)) :: u8) = 0"
proof -
  have "off < 2 ^ 7" using assms by simp
  then have t: "off AND mask 7 = off"
    by (rule less_mask_eq)
  have hi: "\<not> bit off m" if "7 \<le> m" for m
  proof
    assume "bit off m"
    then have "bit (off AND mask 7) m" by (simp only: t)
    with that show False by (simp add: bit_simps)
  qed
  have m: "(0xff :: c_int) = mask 8"
    by (simp add: mask_eq_exp_minus_1)
  show "(ucast ((ucast off :: c_int) AND 0xff) :: u8) = ucast off"
    unfolding m by (rule bit_eqI) (auto simp: bit_simps dest: bit_imp_le_length)
  show "(ucast (signed_drop_bit 8 (ucast off :: c_int)) :: u8) = 0"
    by (rule bit_eqI) (auto simp: bit_simps bit_signed_drop_bit_iff hi dest: bit_imp_le_length)
qed

lemma read_len_small:
  fixes n :: size_t
  assumes "n \<le> 128"
  shows "nat (sint (ucast n :: c_int)) = unat n"
proof -
  have le: "uint n \<le> 128"
    using assms by (simp add: word_le_def)
  have "uint (ucast n :: c_int) = take_bit 32 (uint n)"
    by (simp add: unsigned_ucast_eq)
  also have "\<dots> = uint n"
    using le by (intro take_bit_int_eq_self) simp_all
  finally have u: "uint (ucast n :: c_int) = uint n" .
  have "sint (ucast n :: c_int) = signed_take_bit 31 (uint (ucast n :: c_int))"
    by (simp add: sint_uint)
  also have "\<dots> = uint n"
  proof -
    have "- (2 ^ 31) \<le> uint n"
      by (rule order_trans [of _ 0]) simp_all
    moreover have "uint n < 2 ^ 31" using le by simp
    ultimately show ?thesis
      unfolding u by (rule signed_take_bit_int_eq_self)
  qed
  finally show ?thesis by simp
qed

text \<open>
  Claim C10 (as amended). For every \<open>off\<close> and \<open>count\<close> whose sum does not wrap
  around in \<open>size_t\<close>: if \<open>off\<close> exceeds 128, \<open>eeprom_read\<close> returns 0 and
  leaves the bus untouched; if \<open>off + count\<close> exceeds 128, the count becomes
  \<open>128 - off\<close>; otherwise it stays \<open>count\<close>; the result is that count or
  \<open>-EIO\<close>. A result other than 0 and \<open>-EIO\<close> satisfies \<open>off + result \<le> 128\<close>, and
  when both selections succeed and the result is not 0, exactly that many bytes are read
  from address \<open>off\<close>.
\<close>

theorem eeprom_read_within_data_memory:
  assumes "unat off + unat count < 2 ^ 64"
  shows "(128 < off \<longrightarrow> eeprom_read b off count = (0, [], b)) \<and>
         (off \<le> 128 \<and> 128 < unat off + unat count \<longrightarrow>
            fst (eeprom_read b off count) \<in> {128 - off, neg_errno EIO}) \<and>
         (unat off + unat count \<le> 128 \<longrightarrow>
            fst (eeprom_read b off count) \<in> {count, neg_errno EIO}) \<and>
         (fst (eeprom_read b off count) \<in> {0, neg_errno EIO} \<or>
            unat off + unat (fst (eeprom_read b off count)) \<le> 128) \<and>
         (\<not> select_fails b (nselect b) \<and> \<not> select_fails b (Suc (nselect b)) \<and>
          fst (eeprom_read b off count) \<noteq> 0 \<longrightarrow>
            trace (snd (snd (eeprom_read b off count))) =
              trace b @ [MutexLock, ResetSelect, ResetSelect,
                         WriteBlock [DS2432_READ_MEMORY, ucast off, 0],
                         ReadBlock (unat (fst (eeprom_read b off count))), MutexUnlock] \<and>
            length (fst (snd (eeprom_read b off count))) =
              unat (fst (eeprom_read b off count)) \<and>
            unat off + unat (fst (eeprom_read b off count)) \<le> 128)"
proof -
  let ?n = "w1_b3_fix_count off count 128"
  have n: "?n = (if 128 < off then 0
                 else if 128 < unat off + unat count then 128 - off else count)"
    using assms by (rule fix_count_cases)
  have un: "unat ?n = (if 128 < unat off then 0
                       else if 128 < unat off + unat count then 128 - unat off
                       else unat count)"
    using assms by (rule fix_count_unat)
  have zero: "eeprom_read b off count = (0, [], b)" if "?n = 0"
    using that by (simp add: eeprom_read_def W1_DS2432_DATA_MEMORY_SIZE_def)
  have res: "fst (eeprom_read b off count) =
               (if ?n = 0 then 0 else if select_fails b (nselect b) then neg_errno EIO else ?n)"
    by (simp add: eeprom_read_def W1_DS2432_DATA_MEMORY_SIZE_def Let_def bus_defs
          split: prod.splits)
  have c1: "128 < off \<longrightarrow> eeprom_read b off count = (0, [], b)"
    using zero n by simp
  have c2: "off \<le> 128 \<and> 128 < unat off + unat count \<longrightarrow>
            fst (eeprom_read b off count) \<in> {128 - off, neg_errno EIO}"
    using n by (auto simp: res)
  have c3: "unat off + unat count \<le> 128 \<longrightarrow>
            fst (eeprom_read b off count) \<in> {count, neg_errno EIO}"
    using n by (auto simp: res word_less_nat_alt)
  have bound: "?n = 0 \<or> unat off + unat ?n \<le> 128"
    using un by (auto simp: unat_eq_0 split: if_splits)
  have c4: "fst (eeprom_read b off count) \<in> {0, neg_errno EIO} \<or>
            unat off + unat (fst (eeprom_read b off count)) \<le> 128"
    using bound by (auto simp: res)
  have c5: "trace (snd (snd (eeprom_read b off count))) =
              trace b @ [MutexLock, ResetSelect, ResetSelect,
                         WriteBlock [DS2432_READ_MEMORY, ucast off, 0],
                         ReadBlock (unat (fst (eeprom_read b off count))), MutexUnlock] \<and>
            length (fst (snd (eeprom_read b off count))) =
              unat (fst (eeprom_read b off count)) \<and>
            unat off + unat (fst (eeprom_read b off count)) \<le> 128"
    if sel: "\<not> select_fails b (nselect b)" "\<not> select_fails b (Suc (nselect b))"
      and nz: "fst (eeprom_read b off count) \<noteq> 0"
  proof -
    have n0: "?n \<noteq> 0" using nz by (auto simp: res split: if_splits)
    have r: "fst (eeprom_read b off count) = ?n" using n0 sel by (simp add: res)
    have le: "unat off + unat ?n \<le> 128" using bound n0 by simp
    have "0 < unat ?n" using n0 by (simp add: unat_gt_0)
    then have "unat off < 128" using le by linarith
    then have off: "off < 128" by (simp add: word_less_nat_alt)
    have "unat ?n \<le> 128" using le by linarith
    then have "?n \<le> 128" by (simp add: word_le_nat_alt)
    then have len: "nat (sint (ucast ?n :: c_int)) = unat ?n" by (rule read_len_small)
    show ?thesis
      unfolding r using n0 sel le
      by (simp add: eeprom_read_def W1_DS2432_DATA_MEMORY_SIZE_def Let_def bus_defs
            w1_ds2432_read_memory_def small_offset_bytes [OF off] len)
  qed
  from c1 c2 c3 c4 c5 show ?thesis by blast
qed

theorem eeprom_read_within_data_memory_witness:
  "unat (120 :: size_t) + unat (16 :: size_t) < 2 ^ 64 \<and>
   fst (eeprom_read (bus_up (\<lambda>k. 0x5A)) 120 16) = 8 \<and>
   fst (snd (eeprom_read (bus_up (\<lambda>k. 0x5A)) 120 16)) = replicate 8 0x5A \<and>
   trace (snd (snd (eeprom_read (bus_up (\<lambda>k. 0x5A)) 120 16))) =
     [MutexLock, ResetSelect, ResetSelect, WriteBlock [0xF0, 120, 0], ReadBlock 8,
      MutexUnlock] \<and>
   eeprom_read (bus_up (\<lambda>k. 0x5A)) 129 16 = (0, [], bus_up (\<lambda>k. 0x5A)) \<and>
   fst (eeprom_read (bus_up (\<lambda>k. 0x5A)) 0 16) = 16"
proof -
  have r: "fst (eeprom_read (bus_up (\<lambda>k. 0x5A)) 120 16) = 8"
    "fst (snd (eeprom_read (bus_up (\<lambda>k. 0x5A)) 120 16)) = replicate 8 0x5A"
    "fst (eeprom_read (bus_up (\<lambda>k. 0x5A)) 0 16) = 16"
    by (simp_all add: eeprom_read_def w1_b3_fix_count_def W1_DS2432_DATA_MEMORY_SIZE_def
          w1_ds2432_read_memory_def bus_defs bus_up_def Let_def map_replicate_const)
  show ?thesis
    using eeprom_read_within_data_memory [of 120 16 "bus_up (\<lambda>k. 0x5A)"]
      eeprom_read_within_data_memory [of 129 16 "bus_up (\<lambda>k. 0x5A)"]
    by (simp add: r) (simp add: bus_up_def DS2432_READ_MEMORY_def)
qed

text \<open>
  Claim C10 as stated fails at two inputs. With \<open>off = 1\<close> and
  \<open>count = 2\<^sup>6\<^sup>4 - 1\<close> the sum wraps to 0 in \<open>w1_b3_fix_count\<close>, so the
  count is returned as it is instead of \<open>128 - off\<close>. With \<open>off = 200\<close> the result
  is 0, and \<open>off + 0\<close> is not at most 128.
\<close>

theorem eeprom_read_count_not_bounded:
  "fst (eeprom_read (bus_up (\<lambda>k. 0x5A)) 1 0xFFFFFFFFFFFFFFFF) = 0xFFFFFFFFFFFFFFFF \<and>
   128 < unat (1 :: size_t) + unat (0xFFFFFFFFFFFFFFFF :: size_t) \<and>
   (0xFFFFFFFFFFFFFFFF :: size_t) \<noteq> 128 - 1 \<and>
   \<not> unat (1 :: size_t) + unat (0xFFFFFFFFFFFFFFFF :: size_t) \<le> 128 \<and>
   fst (eeprom_read (bus_up (\<lambda>k. 0x5A)) 200 10) = 0 \<and>
   \<not> unat (200 :: size_t) + unat (0 :: size_t) \<le> 128"
  by (simp add: eeprom_read_def w1_b3_fix_count_def W1_DS2432_DATA_MEMORY_SIZE_def
        w1_ds2432_read_memory_def bus_defs bus_up_def Let_def split: prod.splits)

end
